theory Spec2Isabelle
  imports Main
begin

section \<open>WSL Screen Snipper: change detection and deduplicating ingestion\<close>

text \<open>
  A shallow embedding of the monitoring core of \<^verbatim>\<open>src/extension.ts\<close>: the module-level
  variables become one record that every function takes and returns, the Node and
  VS Code services the code calls become a record of what they answer during one
  callback, and everything the code does to the outside world is appended to a list
  of effects.

  Every callback body of the source runs to completion without an intervening
  macrotask: \<^verbatim>\<open>copyScreenshotToWSL\<close> contains no \<^verbatim>\<open>await\<close>, so the only suspension
  in \<^verbatim>\<open>handleNewScreenshot\<close> is on an already settled promise and is resumed from
  the microtask queue before any timer or watcher callback can run. Each callback is
  therefore one function from state to state.
\<close>

subsection \<open>Strings and paths\<close>

type_synonym path = string

text \<open>\<^verbatim>\<open>String.prototype.endsWith(searchString)\<close> with the default end position.\<close>

definition endsWith :: "string \<Rightarrow> string \<Rightarrow> bool" where
  "endsWith s searchString =
     (length searchString \<le> length s \<and>
      drop (length s - length searchString) s = searchString)"

text \<open>
  The test both detectors and the manual command apply to a file name:
  \<^verbatim>\<open>f.endsWith('.png') || f.endsWith('.jpg') || f.endsWith('.jpeg')\<close>.
\<close>

definition qualifies :: "string \<Rightarrow> bool" where
  "qualifies filename =
     (endsWith filename ''.png'' \<or> endsWith filename ''.jpg'' \<or> endsWith filename ''.jpeg'')"

text \<open>Truthiness of a \<^verbatim>\<open>string | undefined\<close> (or \<^verbatim>\<open>string | null\<close>) value.\<close>

fun truthy :: "string option \<Rightarrow> bool" where
  "truthy None = False"
| "truthy (Some s) = (s \<noteq> [])"

subsection \<open>The environment of one callback\<close>

text \<open>The fields of \<^verbatim>\<open>fs.Stats\<close> the code reads; \<open>mtime_getTime\<close> is \<^verbatim>\<open>stats.mtime.getTime()\<close>.\<close>

record Stats =
  isFile :: bool
  size_st :: nat
  mtime_getTime :: int

text \<open>
  What Node and VS Code answer while one callback runs. A call that throws is
  \<open>None\<close> (or \<open>False\<close> where the call returns nothing). \<open>path_join\<close> and
  \<open>path_basename\<close> are Node's \<^verbatim>\<open>path.join\<close> and \<^verbatim>\<open>path.basename\<close>; the
  configuration strings are the values after \<^verbatim>\<open>.trim()\<close>.
\<close>

record node_env =
  existsSync :: "path \<Rightarrow> bool"
  statSync :: "path \<Rightarrow> Stats option"
  readdirSync :: "path \<Rightarrow> string list option"
  copyFileSync :: "path \<Rightarrow> path \<Rightarrow> bool"
  rmSync :: "path \<Rightarrow> bool"
  watch :: "path \<Rightarrow> bool"
  spawn_clip :: bool
  path_join :: "path \<Rightarrow> string \<Rightarrow> path"
  path_basename :: "path \<Rightarrow> string"
  Date_now :: int
  windowsUsername :: string
  customWindowsPath :: string
  pollingInterval_cfg :: int
  autoCleanup :: bool
  activeTerminal :: bool

subsection \<open>Effects\<close>

datatype effect =
    ConsoleLog string
  | ConsoleWarn string
  | ConsoleError string
  | ShowInformationMessage string
  | ShowErrorMessage string
  | CopyFile path path
  | Clipboard string
  | WatcherClose
  | ClearInterval
  | RmSync path
  | SendText string
  | TerminalPaste

text \<open>Whether an effect is a call \<^verbatim>\<open>fs.copyFileSync(p, _)\<close>.\<close>

fun is_copy_of :: "path \<Rightarrow> effect \<Rightarrow> bool" where
  "is_copy_of p (CopyFile src dst) = (src = p)"
| "is_copy_of p _ = False"

definition transfers :: "path \<Rightarrow> effect list \<Rightarrow> nat" where
  "transfers p es = length (filter (is_copy_of p) es)"

subsection \<open>Module state\<close>

text \<open>
  The module-level variables. \<open>fileWatcher\<close> holds the watched directory of the
  live subscription, \<open>pollingInterval\<close> the directory and period of the live timer.
  \<^verbatim>\<open>disposables\<close> is left out: only \<^verbatim>\<open>activate\<close> and \<^verbatim>\<open>deactivate\<close> touch it.
  Times are integers, the milliseconds of \<^verbatim>\<open>Date.prototype.getTime\<close>.
\<close>

record state =
  screenshotDir :: "path option"
  fileWatcher :: "path option"
  lastSavedImagePath :: "path option"
  processedFiles :: "path set"
  pollingInterval :: "(path \<times> int) option"
  lastScreenshotCheck :: int

definition initial_state :: state where
  "initial_state =
     \<lparr>screenshotDir = None, fileWatcher = None, lastSavedImagePath = None,
      processedFiles = {}, pollingInterval = None, lastScreenshotCheck = 0\<rparr>"

subsection \<open>copyToClipboard and copyScreenshotToWSL\<close>

definition copyToClipboard :: "node_env \<Rightarrow> string \<Rightarrow> effect list" where
  "copyToClipboard env text =
     (if spawn_clip env
      then [Clipboard text, ConsoleLog (''Copied to clipboard: '' @ text)]
      else [ConsoleError ''Failed to copy to clipboard:''])"

definition copyScreenshotToWSL ::
  "node_env \<Rightarrow> state \<Rightarrow> path \<Rightarrow> path option \<times> effect list" where
  "copyScreenshotToWSL env st sourceFile =
     (if \<not> truthy (screenshotDir st)
      then (None, [ConsoleError ''Screenshot directory not initialized'',
                   ShowErrorMessage ''Screenshot directory not initialized''])
      else
        let fileName = path_basename env sourceFile;
            targetPath = path_join env (the (screenshotDir st)) fileName
        in if copyFileSync env sourceFile targetPath
           then (Some targetPath,
                 CopyFile sourceFile targetPath # copyToClipboard env targetPath @
                 [ShowInformationMessage (''Screenshot copied: '' @ fileName)])
           else (None,
                 [CopyFile sourceFile targetPath,
                  ShowErrorMessage ''Error copying screenshot: '']))"

subsection \<open>handleNewScreenshot\<close>

definition handleNewScreenshot :: "node_env \<Rightarrow> path \<Rightarrow> state \<Rightarrow> state \<times> effect list" where
  "handleNewScreenshot env filePath st =
     (if filePath \<in> processedFiles st then (st, [])
      else if \<not> existsSync env filePath then (st, [])
      else case statSync env filePath of
        None \<Rightarrow> (st, [ConsoleError (''Error processing screenshot '' @ filePath @ '':'')])
      | Some stats \<Rightarrow>
          if \<not> isFile stats \<or> size_st stats = 0 then (st, [])
          else
            let st1 = st\<lparr>processedFiles := insert filePath (processedFiles st)\<rparr>;
                r = copyScreenshotToWSL env st1 filePath
            in (if truthy (fst r) then st1\<lparr>lastSavedImagePath := fst r\<rparr> else st1, snd r))"

subsection \<open>checkForNewScreenshots\<close>

text \<open>The object literal assigned to \<^verbatim>\<open>newestFile\<close>.\<close>

record newest =
  name :: string
  path :: path
  mtime :: int

text \<open>
  The \<^verbatim>\<open>for (const filename of files)\<close> loop; the accumulator is the pair of the
  loop variables \<^verbatim>\<open>newestFile\<close> and \<^verbatim>\<open>newestTime\<close>.
\<close>

fun scan :: "node_env \<Rightarrow> path \<Rightarrow> string list \<Rightarrow> newest option \<times> int \<Rightarrow> newest option \<times> int" where
  "scan env dir [] acc = acc"
| "scan env dir (filename # files) (newestFile, newestTime) =
     (if qualifies filename then
        let fullPath = path_join env dir filename
        in case statSync env fullPath of
             None \<Rightarrow> scan env dir files (newestFile, newestTime)
           | Some stats \<Rightarrow>
               if mtime_getTime stats > newestTime
               then scan env dir files
                      (Some \<lparr>name = filename, path = fullPath, mtime = mtime_getTime stats\<rparr>,
                       mtime_getTime stats)
               else scan env dir files (newestFile, newestTime)
      else scan env dir files (newestFile, newestTime))"

text \<open>The candidate of one poll cycle: \<^verbatim>\<open>newestFile\<close> after the loop, if the listing succeeded.\<close>

definition select_newest :: "node_env \<Rightarrow> path \<Rightarrow> int \<Rightarrow> newest option" where
  "select_newest env dir watermark =
     (case readdirSync env dir of
        None \<Rightarrow> None
      | Some files \<Rightarrow> fst (scan env dir files (None, watermark)))"

definition checkForNewScreenshots :: "node_env \<Rightarrow> path \<Rightarrow> state \<Rightarrow> state \<times> effect list" where
  "checkForNewScreenshots env windowsScreenshotsPath st =
     (case readdirSync env windowsScreenshotsPath of
        None \<Rightarrow> (st, [ConsoleError ''Error during polling check: ''])
      | Some files \<Rightarrow>
          (case fst (scan env windowsScreenshotsPath files (None, lastScreenshotCheck st)) of
             None \<Rightarrow> (st, [])
           | Some newestFile \<Rightarrow>
               let st1 = st\<lparr>lastScreenshotCheck := mtime newestFile\<rparr>;
                   r = handleNewScreenshot env (path newestFile) st1
               in (fst r, ConsoleLog (''Found new screenshot: '' @ name newestFile) # snd r)))"

subsection \<open>The watcher callback and startFileMonitoring\<close>

text \<open>
  The callback given to \<^verbatim>\<open>fs.watch\<close>: the path it hands to \<^verbatim>\<open>setTimeout\<close> for
  \<^verbatim>\<open>handleNewScreenshot\<close>, or \<open>None\<close> when it schedules nothing.
\<close>

definition watch_callback :: "node_env \<Rightarrow> path \<Rightarrow> string \<Rightarrow> string option \<Rightarrow> path option" where
  "watch_callback env windowsScreenshotsPath eventType filename =
     (if eventType = ''rename'' \<and> truthy filename \<and> qualifies (the filename)
      then Some (path_join env windowsScreenshotsPath (the filename))
      else None)"

text \<open>
  Console and notification texts are those of the source, cut before an interpolated
  error object. \<open>check_mark\<close> and \<open>ballot_x\<close> are the UTF-8 bytes of U+2713 and U+2717.
\<close>

definition check_mark :: string where
  "check_mark = [CHR 0xE2, CHR 0x9C, CHR 0x93]"

definition ballot_x :: string where
  "ballot_x = [CHR 0xE2, CHR 0x9C, CHR 0x97]"

definition quoted :: "string \<Rightarrow> string" where
  "quoted s = [CHR 0x22] @ s @ [CHR 0x22]"

definition getWindowsScreenshotsPath :: "node_env \<Rightarrow> path \<times> effect list" where
  "getWindowsScreenshotsPath env =
     (if windowsUsername env \<noteq> []
      then (''/mnt/c/Users/'' @ windowsUsername env @ ''/Pictures/Screenshots'',
            [ConsoleLog ''=== Windows Path Detection Debug ==='',
             ConsoleLog (''Windows username: '' @ quoted (windowsUsername env)),
             ConsoleLog (check_mark @ '' Using username-based path: '' @
                         ''/mnt/c/Users/'' @ windowsUsername env @ ''/Pictures/Screenshots'')])
      else if customWindowsPath env \<noteq> []
      then (customWindowsPath env,
            [ConsoleLog ''=== Windows Path Detection Debug ==='',
             ConsoleLog (''Windows username: '' @ quoted (windowsUsername env)),
             ConsoleLog (''Custom path: '' @ quoted (customWindowsPath env)),
             ConsoleLog (check_mark @ '' Using custom path: '' @ customWindowsPath env)])
      else ([],
            [ConsoleLog ''=== Windows Path Detection Debug ==='',
             ConsoleLog (''Windows username: '' @ quoted (windowsUsername env)),
             ConsoleLog (''Custom path: '' @ quoted (customWindowsPath env)),
             ConsoleError (ballot_x @ '' No Windows path configured''),
             ShowErrorMessage ''WSL Screen Snipper: Please configure either Windows Username or Custom Windows Path in settings.'']))"

definition startFileMonitoring :: "node_env \<Rightarrow> state \<Rightarrow> (state \<times> bool) \<times> effect list" where
  "startFileMonitoring env st =
     (let windowsScreenshotsPath = fst (getWindowsScreenshotsPath env);
          es0 = snd (getWindowsScreenshotsPath env)
      in if windowsScreenshotsPath = []
         then ((st, False), es0 @ [ConsoleError ''Windows Screenshots path not configured''])
         else if \<not> existsSync env windowsScreenshotsPath
         then ((st, False),
               es0 @ [ConsoleError (''Windows Screenshots directory not found: '' @
                                    windowsScreenshotsPath),
                      ShowErrorMessage (''Screenshots directory not found: '' @
                                        windowsScreenshotsPath @
                                        ''. Please check your Windows username setting.'')])
         else
           let st1 = st\<lparr>lastScreenshotCheck := Date_now env\<rparr>;
               st2 = (if watch env windowsScreenshotsPath
                      then st1\<lparr>fileWatcher := Some windowsScreenshotsPath\<rparr> else st1);
               es1 = (if watch env windowsScreenshotsPath
                      then [ConsoleLog (''Primary monitoring (fs.watch) started for: '' @
                                        windowsScreenshotsPath)]
                      else [ConsoleWarn ''fs.watch failed: '']);
               st3 = st2\<lparr>pollingInterval :=
                            Some (windowsScreenshotsPath, pollingInterval_cfg env)\<rparr>
           in ((st3, True),
               es0 @ es1 @ [ConsoleLog (''Polling-based monitoring started for: '' @
                                        windowsScreenshotsPath)]))"

subsection \<open>The paste interceptor and cleanup\<close>

definition interceptPaste :: "node_env \<Rightarrow> state \<Rightarrow> effect list" where
  "interceptPaste env st =
     ConsoleLog (''Paste interceptor triggered. lastSavedImagePath: '' @
                 (case lastSavedImagePath st of None \<Rightarrow> ''undefined'' | Some p \<Rightarrow> p) @
                 '', activeTerminal: '' @ (if activeTerminal env then ''true'' else ''false'')) #
     (if truthy (lastSavedImagePath st) \<and> activeTerminal env
      then [ConsoleLog (''Sending WSL path to terminal: '' @ the (lastSavedImagePath st)),
            SendText (the (lastSavedImagePath st)),
            ShowInformationMessage
              (''Pasted screenshot path: '' @ path_basename env (the (lastSavedImagePath st)))]
      else [ConsoleLog ''Falling back to normal paste'',
            TerminalPaste])"

definition cleanup :: "node_env \<Rightarrow> state \<Rightarrow> state \<times> effect list" where
  "cleanup env st =
     (let es1 = (if fileWatcher st \<noteq> None then [WatcherClose] else []);
          st1 = (if fileWatcher st \<noteq> None then st\<lparr>fileWatcher := None\<rparr> else st);
          es2 = (if pollingInterval st1 \<noteq> None then [ClearInterval] else []);
          st2 = (if pollingInterval st1 \<noteq> None then st1\<lparr>pollingInterval := None\<rparr> else st1);
          st3 = st2\<lparr>processedFiles := {}\<rparr>;
          es3 = (if autoCleanup env \<and> truthy (screenshotDir st3) \<and>
                    existsSync env (the (screenshotDir st3))
                 then (if rmSync env (the (screenshotDir st3))
                       then [RmSync (the (screenshotDir st3)),
                             ConsoleLog (''Cleaned up and removed screenshot directory: '' @
                                         the (screenshotDir st3))]
                       else [RmSync (the (screenshotDir st3)),
                             ConsoleError ''Failed to cleanup screenshot directory:''])
                 else [])
      in (st3, es1 @ es2 @ es3))"

subsection \<open>A monitoring session\<close>

text \<open>
  What can happen between \<^verbatim>\<open>startFileMonitoring\<close> and \<^verbatim>\<open>cleanup\<close>: a settle timer
  set by the watcher callback for a notification \<open>(eventType, filename)\<close> fires, or
  the interval timer fires. Each event carries the environment its callback sees.
  The watcher callback itself changes no variable; its settle timers are held by the
  runtime, not by a module variable, and \<open>cleanup\<close> has no handle on them.
\<close>

datatype event =
    Watcher string "string option"
  | Poll

definition step :: "path \<Rightarrow> node_env \<Rightarrow> event \<Rightarrow> state \<Rightarrow> state \<times> effect list" where
  "step dir env ev st =
     (case ev of
        Watcher eventType filename \<Rightarrow>
          (case watch_callback env dir eventType filename of
             None \<Rightarrow> (st, [])
           | Some fullPath \<Rightarrow> handleNewScreenshot env fullPath st)
      | Poll \<Rightarrow> checkForNewScreenshots env dir st)"

fun run :: "path \<Rightarrow> (node_env \<times> event) list \<Rightarrow> state \<Rightarrow> state \<times> effect list" where
  "run dir [] st = (st, [])"
| "run dir (e # evs) st =
     (let r1 = step dir (fst e) (snd e) st;
          r2 = run dir evs (fst r1)
      in (fst r2, snd r1 @ snd r2))"

subsection \<open>Settle timers\<close>

text \<open>
  The callback given to \<^verbatim>\<open>fs.watch\<close> passes its path to \<^verbatim>\<open>setTimeout\<close> and drops
  the handle \<^verbatim>\<open>setTimeout\<close> returns, so a pending settle timer exists in the runtime
  only. \<open>runtime\<close> pairs the module variables with the paths whose settle timer is
  set and has not fired yet; all have the same delay of 1000 ms, so they fire in the
  order they were set. \<open>fs_watch_listener\<close> is the callback of lines 341 to 350,
  \<open>setTimeout_fires\<close> the firing of the oldest pending timer (lines 346 to 348), and
  \<open>cleanup_rt\<close> is \<open>cleanup\<close> seen from the runtime: it works on the module
  variables and has nothing to call \<^verbatim>\<open>clearTimeout\<close> on.
\<close>

record runtime =
  vars :: state
  settleTimers :: "path list"

definition fs_watch_listener ::
  "node_env \<Rightarrow> path \<Rightarrow> string \<Rightarrow> string option \<Rightarrow> runtime \<Rightarrow> runtime" where
  "fs_watch_listener env windowsScreenshotsPath eventType filename rt =
     (case watch_callback env windowsScreenshotsPath eventType filename of
        None \<Rightarrow> rt
      | Some fullPath \<Rightarrow> rt\<lparr>settleTimers := settleTimers rt @ [fullPath]\<rparr>)"

definition setTimeout_fires :: "node_env \<Rightarrow> runtime \<Rightarrow> runtime \<times> effect list" where
  "setTimeout_fires env rt =
     (case settleTimers rt of
        [] \<Rightarrow> (rt, [])
      | fullPath # rest \<Rightarrow>
          let r = handleNewScreenshot env fullPath (vars rt)
          in (\<lparr>vars = fst r, settleTimers = rest\<rparr>, snd r))"

definition cleanup_rt :: "node_env \<Rightarrow> runtime \<Rightarrow> runtime \<times> effect list" where
  "cleanup_rt env rt = (rt\<lparr>vars := fst (cleanup env (vars rt))\<rparr>, snd (cleanup env (vars rt)))"

subsection \<open>A small concrete installation\<close>

text \<open>
  The source directory \<open>/win\<close> with the given entries and the destination \<open>/wsl\<close>, for
  evaluating the functions above on concrete inputs. An entry with \<open>None\<close> is a file
  that is listed but cannot be stat'ed.
\<close>

definition join_ex :: "path \<Rightarrow> string \<Rightarrow> path" where
  "join_ex d f = d @ ''/'' @ f"

definition basename_ex :: "path \<Rightarrow> string" where
  "basename_ex p = rev (takeWhile (\<lambda>c. c \<noteq> CHR ''/'') (rev p))"

definition file_ex :: "nat \<Rightarrow> int \<Rightarrow> Stats" where
  "file_ex n t = \<lparr>isFile = True, size_st = n, mtime_getTime = t\<rparr>"

definition env_ex :: "(string \<times> Stats option) list \<Rightarrow> bool \<Rightarrow> node_env" where
  "env_ex entries copy_ok =
     \<lparr>existsSync = (\<lambda>p. p = ''/win'' \<or> p = ''/wsl'' \<or>
                         p \<in> set (map (\<lambda>e. join_ex ''/win'' (fst e)) entries)),
      statSync = (\<lambda>p. case map_of (map (\<lambda>e. (join_ex ''/win'' (fst e), snd e)) entries) p of
                        None \<Rightarrow> None | Some r \<Rightarrow> r),
      readdirSync = (\<lambda>d. if d = ''/win'' then Some (map fst entries) else None),
      copyFileSync = (\<lambda>src dst. copy_ok),
      rmSync = (\<lambda>d. True),
      watch = (\<lambda>d. True),
      spawn_clip = True,
      path_join = join_ex,
      path_basename = basename_ex,
      Date_now = 150,
      windowsUsername = [],
      customWindowsPath = ''/win'',
      pollingInterval_cfg = 500,
      autoCleanup = True,
      activeTerminal = True\<rparr>"

definition state_ex :: state where
  "state_ex =
     \<lparr>screenshotDir = Some ''/wsl'', fileWatcher = Some ''/win'', lastSavedImagePath = None,
      processedFiles = {}, pollingInterval = Some (''/win'', 500), lastScreenshotCheck = 150\<rparr>"

section \<open>Properties\<close>

subsection \<open>Counting transfers\<close>

lemma transfers_Nil: "transfers p [] = 0"
  by (simp add: transfers_def)

lemma transfers_append: "transfers p (xs @ ys) = transfers p xs + transfers p ys"
  by (simp add: transfers_def)

lemma transfers_Cons: "transfers p (e # es) = (if is_copy_of p e then 1 else 0) + transfers p es"
  by (simp add: transfers_def)

lemma transfers_copyToClipboard: "transfers p (copyToClipboard env t) = 0"
  by (simp add: copyToClipboard_def transfers_def)

lemma copy_transfers:
  "transfers p (snd (copyScreenshotToWSL env st q)) \<le> (if q = p then 1 else 0)"
  by (simp add: copyScreenshotToWSL_def Let_def transfers_Cons transfers_append
      transfers_copyToClipboard transfers_Nil)

lemma handle_processed_noop:
  "p \<in> processedFiles st \<Longrightarrow> handleNewScreenshot env p st = (st, [])"
  by (simp add: handleNewScreenshot_def)

lemma handle_processedFiles:
  "processedFiles (fst (handleNewScreenshot env q st)) = processedFiles st \<or>
   processedFiles (fst (handleNewScreenshot env q st)) = insert q (processedFiles st)"
  by (simp add: handleNewScreenshot_def Let_def split: option.splits)

lemma handle_processed_mono:
  "p \<in> processedFiles st \<Longrightarrow> p \<in> processedFiles (fst (handleNewScreenshot env q st))"
  using handle_processedFiles [of env q st] by auto

lemma handle_transfers:
  "transfers p (snd (handleNewScreenshot env q st)) \<le>
     (if q = p \<and> p \<notin> processedFiles st then 1 else 0)"
proof (cases "q \<in> processedFiles st")
  case True
  then show ?thesis by (simp add: handleNewScreenshot_def transfers_Nil)
next
  case False
  have "transfers p (snd (copyScreenshotToWSL env
          (st\<lparr>processedFiles := insert q (processedFiles st)\<rparr>) q)) \<le> (if q = p then 1 else 0)"
    by (rule copy_transfers)
  with False show ?thesis
    by (auto simp add: handleNewScreenshot_def Let_def transfers_Nil transfers_Cons
        split: option.splits if_splits)
qed

lemma handle_transfers_marks:
  "0 < transfers p (snd (handleNewScreenshot env q st)) \<Longrightarrow>
     p \<in> processedFiles (fst (handleNewScreenshot env q st))"
  using copy_transfers [of p env "st\<lparr>processedFiles := insert q (processedFiles st)\<rparr>" q]
  by (auto simp add: handleNewScreenshot_def Let_def transfers_Nil transfers_Cons
      split: option.splits if_splits)

lemma handle_watermark:
  "lastScreenshotCheck (fst (handleNewScreenshot env q st)) = lastScreenshotCheck st"
  by (simp add: handleNewScreenshot_def Let_def split: option.splits)

lemma check_processed_mono:
  "p \<in> processedFiles st \<Longrightarrow> p \<in> processedFiles (fst (checkForNewScreenshots env dir st))"
  by (simp add: checkForNewScreenshots_def Let_def handle_processed_mono split: option.splits)

lemma check_transfers:
  "transfers p (snd (checkForNewScreenshots env dir st)) \<le>
     (if p \<notin> processedFiles st then 1 else 0)"
proof (cases "readdirSync env dir")
  case None
  then show ?thesis by (simp add: checkForNewScreenshots_def transfers_Cons transfers_Nil)
next
  case (Some files)
  show ?thesis
  proof (cases "fst (scan env dir files (None, lastScreenshotCheck st))")
    case None
    with Some show ?thesis by (simp add: checkForNewScreenshots_def transfers_Nil)
  next
    case (Some nf)
    have "transfers p (snd (handleNewScreenshot env (path nf) (st\<lparr>lastScreenshotCheck := mtime nf\<rparr>)))
            \<le> (if p \<notin> processedFiles st then 1 else 0)"
      using handle_transfers [of p env "path nf" "st\<lparr>lastScreenshotCheck := mtime nf\<rparr>"]
      by (simp split: if_splits)
    with Some \<open>readdirSync env dir = Some files\<close> show ?thesis
      by (simp add: checkForNewScreenshots_def Let_def transfers_Cons)
  qed
qed

lemma check_transfers_marks:
  "0 < transfers p (snd (checkForNewScreenshots env dir st)) \<Longrightarrow>
     p \<in> processedFiles (fst (checkForNewScreenshots env dir st))"
  by (auto simp add: checkForNewScreenshots_def Let_def transfers_Cons transfers_Nil
      split: option.splits dest: handle_transfers_marks)

lemma step_processed_mono:
  "p \<in> processedFiles st \<Longrightarrow> p \<in> processedFiles (fst (step dir env ev st))"
  by (simp add: step_def handle_processed_mono check_processed_mono split: event.splits option.splits)

lemma step_transfers:
  "transfers p (snd (step dir env ev st)) \<le> (if p \<notin> processedFiles st then 1 else 0)"
proof (cases ev)
  case (Watcher et fn)
  show ?thesis
  proof (cases "watch_callback env dir et fn")
    case None
    with Watcher show ?thesis by (simp add: step_def transfers_Nil)
  next
    case (Some q)
    have "transfers p (snd (handleNewScreenshot env q st)) \<le> (if p \<notin> processedFiles st then 1 else 0)"
      using handle_transfers [of p env q st] by (simp split: if_splits)
    with Some Watcher show ?thesis by (simp add: step_def)
  qed
next
  case Poll
  then show ?thesis using check_transfers [of p env dir st] by (simp add: step_def)
qed

lemma step_transfers_marks:
  "0 < transfers p (snd (step dir env ev st)) \<Longrightarrow> p \<in> processedFiles (fst (step dir env ev st))"
  by (auto simp add: step_def transfers_Nil split: event.splits option.splits
      dest: handle_transfers_marks check_transfers_marks)

lemma run_processed_mono:
  "p \<in> processedFiles st \<Longrightarrow> p \<in> processedFiles (fst (run dir evs st))"
  by (induction evs arbitrary: st) (simp_all add: Let_def step_processed_mono)

lemma run_transfers_processed:
  "p \<in> processedFiles st \<Longrightarrow> transfers p (snd (run dir evs st)) = 0"
proof (induction evs arbitrary: st)
  case Nil
  then show ?case by (simp add: transfers_Nil)
next
  case (Cons e evs)
  have "transfers p (snd (step dir (fst e) (snd e) st)) = 0"
    using step_transfers [of p dir "fst e" "snd e" st] Cons.prems by simp
  moreover have "transfers p (snd (run dir evs (fst (step dir (fst e) (snd e) st)))) = 0"
    using Cons.IH Cons.prems step_processed_mono by blast
  ultimately show ?case by (simp add: Let_def transfers_append)
qed

lemma run_transfers_le: "transfers p (snd (run dir evs st)) \<le> 1"
proof (induction evs arbitrary: st)
  case Nil
  then show ?case by (simp add: transfers_Nil)
next
  case (Cons e evs)
  let ?r1 = "step dir (fst e) (snd e) st"
  show ?case
  proof (cases "transfers p (snd ?r1) = 0")
    case True
    with Cons.IH [of "fst ?r1"] show ?thesis by (simp add: Let_def transfers_append)
  next
    case False
    then have "p \<in> processedFiles (fst ?r1)" by (simp add: step_transfers_marks)
    then have "transfers p (snd (run dir evs (fst ?r1))) = 0" by (rule run_transfers_processed)
    moreover have "transfers p (snd ?r1) \<le> 1"
      using step_transfers [of p dir "fst e" "snd e" st] by (simp split: if_splits)
    ultimately show ?thesis by (simp add: Let_def transfers_append)
  qed
qed

subsection \<open>The running-maximum scan\<close>

lemma scan_append:
  "scan env dir (xs @ ys) acc = scan env dir ys (scan env dir xs acc)"
  by (induction env dir xs acc rule: scan.induct) (simp_all add: Let_def split: option.splits)

lemma scan_time_mono: "snd acc \<le> snd (scan env dir files acc)"
proof (induction env dir files acc rule: scan.induct)
  case (1 env dir acc)
  then show ?case by simp
next
  case (2 env dir filename files newestFile newestTime)
  then show ?case
    by (auto simp add: Let_def split: option.splits intro: order_trans less_imp_le)
qed

lemma scan_cases:
  "scan env dir files (nf, t) = (nf, t) \<or>
   (\<exists>f s. f \<in> set files \<and> qualifies f \<and> statSync env (path_join env dir f) = Some s \<and>
          t < mtime_getTime s \<and>
          scan env dir files (nf, t) =
            (Some \<lparr>name = f, path = path_join env dir f, mtime = mtime_getTime s\<rparr>,
             mtime_getTime s))"
proof (induction files arbitrary: nf t)
  case Nil
  then show ?case by simp
next
  case (Cons filename files)
  show ?case
  proof (cases "qualifies filename")
    case False
    with Cons [of nf t] show ?thesis by auto
  next
    case True
    show ?thesis
    proof (cases "statSync env (path_join env dir filename)")
      case None
      with True Cons [of nf t] show ?thesis by (auto simp add: Let_def)
    next
      case (Some stats)
      show ?thesis
      proof (cases "t < mtime_getTime stats")
        case False
        with True Some Cons [of nf t] show ?thesis by (auto simp add: Let_def)
      next
        case newer: True
        let ?c = "\<lparr>name = filename, path = path_join env dir filename, mtime = mtime_getTime stats\<rparr>"
        from Cons [of "Some ?c" "mtime_getTime stats"]
        show ?thesis
        proof
          assume "scan env dir files (Some ?c, mtime_getTime stats) = (Some ?c, mtime_getTime stats)"
          with True Some newer show ?thesis by (auto simp add: Let_def)
        next
          assume "\<exists>f s. f \<in> set files \<and> qualifies f \<and>
                    statSync env (path_join env dir f) = Some s \<and> mtime_getTime stats < mtime_getTime s \<and>
                    scan env dir files (Some ?c, mtime_getTime stats) =
                      (Some \<lparr>name = f, path = path_join env dir f, mtime = mtime_getTime s\<rparr>,
                       mtime_getTime s)"
          then obtain f s where "f \<in> set files" "qualifies f"
            "statSync env (path_join env dir f) = Some s" "mtime_getTime stats < mtime_getTime s"
            "scan env dir files (Some ?c, mtime_getTime stats) =
                      (Some \<lparr>name = f, path = path_join env dir f, mtime = mtime_getTime s\<rparr>,
                       mtime_getTime s)" by blast
          with True Some newer show ?thesis
            by (intro disjI2 exI [of _ f] exI [of _ s]) (simp add: Let_def)
        qed
      qed
    qed
  qed
qed

lemma scan_upper:
  "f \<in> set files \<Longrightarrow> qualifies f \<Longrightarrow> statSync env (path_join env dir f) = Some s \<Longrightarrow>
     mtime_getTime s \<le> snd (scan env dir files acc)"
proof (induction env dir files acc rule: scan.induct)
  case (1 env dir acc)
  then show ?case by simp
next
  case (2 env dir filename files newestFile newestTime)
  show ?case
  proof (cases "f = filename")
    case True
    with "2.prems" show ?thesis
      using scan_time_mono [of "(newestFile, newestTime)" env dir files]
        scan_time_mono [of "(Some \<lparr>name = filename, path = path_join env dir filename,
             mtime = mtime_getTime s\<rparr>, mtime_getTime s)" env dir files]
      by (auto simp add: Let_def)
  next
    case False
    with "2.prems" have "f \<in> set files" by simp
    with "2.IH" "2.prems"(2,3) show ?thesis
      by (auto simp add: Let_def split: option.splits)
  qed
qed

lemma scan_None_time:
  "fst (scan env dir files (None, t)) = None \<Longrightarrow> snd (scan env dir files (None, t)) = t"
  using scan_cases [of env dir files None t] by auto

lemma scan_Some_time:
  "fst (scan env dir files (None, t)) = Some c \<Longrightarrow> snd (scan env dir files (None, t)) = mtime c"
  using scan_cases [of env dir files None t] by auto

lemmas ex_defs = env_ex_def state_ex_def join_ex_def basename_ex_def file_ex_def
lemmas fn_defs = step_def watch_callback_def checkForNewScreenshots_def handleNewScreenshot_def
  copyScreenshotToWSL_def copyToClipboard_def qualifies_def endsWith_def Let_def transfers_def
  select_newest_def

lemma check_select:
  "checkForNewScreenshots env dir st =
     (case readdirSync env dir of
        None \<Rightarrow> (st, [ConsoleError ''Error during polling check: ''])
      | Some files \<Rightarrow>
          (case select_newest env dir (lastScreenshotCheck st) of
             None \<Rightarrow> (st, [])
           | Some c \<Rightarrow>
               (fst (handleNewScreenshot env (path c) (st\<lparr>lastScreenshotCheck := mtime c\<rparr>)),
                ConsoleLog (''Found new screenshot: '' @ name c) #
                snd (handleNewScreenshot env (path c) (st\<lparr>lastScreenshotCheck := mtime c\<rparr>)))))"
  by (simp add: checkForNewScreenshots_def select_newest_def Let_def split: option.splits)

lemma select_newest_None_iff:
  assumes "readdirSync env dir = Some files"
  shows "select_newest env dir w = None \<longleftrightarrow>
         (\<forall>f\<in>set files. qualifies f \<longrightarrow>
            (\<forall>s. statSync env (path_join env dir f) = Some s \<longrightarrow> mtime_getTime s \<le> w))"
proof
  assume none: "select_newest env dir w = None"
  with assms have f: "fst (scan env dir files (None, w)) = None" by (simp add: select_newest_def)
  then have "snd (scan env dir files (None, w)) = w" by (rule scan_None_time)
  then show "\<forall>f\<in>set files. qualifies f \<longrightarrow>
            (\<forall>s. statSync env (path_join env dir f) = Some s \<longrightarrow> mtime_getTime s \<le> w)"
    using scan_upper [where files = files and env = env and dir = dir and acc = "(None, w)"] by auto
next
  assume all: "\<forall>f\<in>set files. qualifies f \<longrightarrow>
            (\<forall>s. statSync env (path_join env dir f) = Some s \<longrightarrow> mtime_getTime s \<le> w)"
  from scan_cases [of env dir files None w] all have "scan env dir files (None, w) = (None, w)"
    by fastforce
  with assms show "select_newest env dir w = None" by (simp add: select_newest_def)
qed

lemma select_newest_Some:
  assumes "readdirSync env dir = Some files" and "select_newest env dir w = Some c"
  shows "name c \<in> set files \<and> qualifies (name c) \<and> path c = path_join env dir (name c) \<and>
         (\<exists>s. statSync env (path c) = Some s \<and> mtime_getTime s = mtime c) \<and> w < mtime c \<and>
         (\<forall>f\<in>set files. qualifies f \<longrightarrow>
            (\<forall>s. statSync env (path_join env dir f) = Some s \<longrightarrow> mtime_getTime s \<le> mtime c))"
proof -
  from assms have f: "fst (scan env dir files (None, w)) = Some c" by (simp add: select_newest_def)
  then have t: "snd (scan env dir files (None, w)) = mtime c" by (rule scan_Some_time)
  from scan_cases [of env dir files None w] f
  obtain g s where "g \<in> set files" "qualifies g" "statSync env (path_join env dir g) = Some s"
    "w < mtime_getTime s"
    "scan env dir files (None, w) =
       (Some \<lparr>name = g, path = path_join env dir g, mtime = mtime_getTime s\<rparr>, mtime_getTime s)"
    by auto
  with f have c: "c = \<lparr>name = g, path = path_join env dir g, mtime = mtime_getTime s\<rparr>" by simp
  have "\<forall>f\<in>set files. qualifies f \<longrightarrow>
            (\<forall>s. statSync env (path_join env dir f) = Some s \<longrightarrow> mtime_getTime s \<le> mtime c)"
    using scan_upper [where files = files and env = env and dir = dir and acc = "(None, w)"] t by auto
  with c \<open>g \<in> set files\<close> \<open>qualifies g\<close> \<open>statSync env (path_join env dir g) = Some s\<close>
    \<open>w < mtime_getTime s\<close>
  show ?thesis by simp
qed

lemma select_newest_strict:
  assumes "readdirSync env dir = Some files"
    and "f3 \<in> set files" and "qualifies f3"
    and "statSync env (path_join env dir f3) = Some s3" and "w < mtime_getTime s3"
    and "\<forall>f\<in>set files. f \<noteq> f3 \<longrightarrow> qualifies f \<longrightarrow>
           (\<forall>s. statSync env (path_join env dir f) = Some s \<longrightarrow> mtime_getTime s < mtime_getTime s3)"
  shows "select_newest env dir w =
           Some \<lparr>name = f3, path = path_join env dir f3, mtime = mtime_getTime s3\<rparr>"
proof (cases "select_newest env dir w")
  case None
  with select_newest_None_iff [OF assms(1), of w] assms(2-5) show ?thesis by fastforce
next
  case (Some c)
  note sel = select_newest_Some [OF assms(1) Some]
  from sel assms(2-4) have ge: "mtime_getTime s3 \<le> mtime c" by blast
  from sel obtain s where s: "statSync env (path_join env dir (name c)) = Some s"
    "mtime_getTime s = mtime c" by auto
  have "name c = f3"
  proof (rule ccontr)
    assume "name c \<noteq> f3"
    with sel s assms(6) have "mtime_getTime s < mtime_getTime s3" by blast
    with ge s show False by simp
  qed
  with sel s assms(4) have "c = \<lparr>name = f3, path = path_join env dir f3, mtime = mtime_getTime s3\<rparr>"
    by simp
  with Some show ?thesis by simp
qed

subsection \<open>The watermark\<close>

lemma check_watermark_cases:
  "(case select_newest env dir (lastScreenshotCheck st) of
      None \<Rightarrow> lastScreenshotCheck (fst (checkForNewScreenshots env dir st)) = lastScreenshotCheck st
    | Some c \<Rightarrow> lastScreenshotCheck (fst (checkForNewScreenshots env dir st)) = mtime c \<and>
                lastScreenshotCheck st < mtime c)"
proof (cases "readdirSync env dir")
  case None
  then show ?thesis by (simp add: check_select select_newest_def)
next
  case (Some files)
  show ?thesis
  proof (cases "select_newest env dir (lastScreenshotCheck st)")
    case None
    with Some show ?thesis by (simp add: check_select)
  next
    case (Some c)
    with select_newest_Some [OF \<open>readdirSync env dir = Some files\<close> Some]
      \<open>readdirSync env dir = Some files\<close>
    show ?thesis by (simp add: check_select handle_watermark)
  qed
qed

lemma check_watermark_mono:
  "lastScreenshotCheck st \<le> lastScreenshotCheck (fst (checkForNewScreenshots env dir st))"
  using check_watermark_cases [of env dir st] by (simp split: option.splits)

lemma step_watcher_watermark:
  "lastScreenshotCheck (fst (step dir env (Watcher et fn) st)) = lastScreenshotCheck st"
  by (simp add: step_def handle_watermark split: option.splits)

lemma step_watermark_mono:
  "lastScreenshotCheck st \<le> lastScreenshotCheck (fst (step dir env ev st))"
  by (cases ev) (simp_all add: step_watcher_watermark, simp add: step_def check_watermark_mono)

lemma run_watermark_mono:
  "lastScreenshotCheck st \<le> lastScreenshotCheck (fst (run dir evs st))"
proof (induction evs arbitrary: st)
  case Nil
  then show ?case by simp
next
  case (Cons e evs)
  have "lastScreenshotCheck st \<le> lastScreenshotCheck (fst (step dir (fst e) (snd e) st))"
    by (rule step_watermark_mono)
  also have "\<dots> \<le> lastScreenshotCheck (fst (run dir evs (fst (step dir (fst e) (snd e) st))))"
    by (rule Cons.IH)
  finally show ?case by (simp add: Let_def)
qed

lemma cleanup_watermark:
  "lastScreenshotCheck (fst (cleanup env st)) = lastScreenshotCheck st"
  by (simp add: cleanup_def Let_def)

lemma start_watermark:
  "lastScreenshotCheck (fst (fst (startFileMonitoring env st))) =
     (if snd (fst (startFileMonitoring env st)) then Date_now env else lastScreenshotCheck st)"
  by (simp add: startFileMonitoring_def Let_def)

text \<open>
  Claim C1. For every path \<open>p\<close>, every session directory, every sequence of watcher
  and poll events (each with its own environment) and every starting state, the
  effects of the session contain at most one call of \<^verbatim>\<open>fs.copyFileSync\<close> with
  source \<open>p\<close>. Once \<open>p\<close> is in \<open>processedFiles\<close>, \<open>handleNewScreenshot\<close> on \<open>p\<close>
  returns the state unchanged with no effect, \<open>p\<close> stays in the set, and the rest of
  the session copies \<open>p\<close> zero times.
\<close>

theorem dedup_at_most_one_transfer:
  "transfers p (snd (run dir evs st)) \<le> 1 \<and>
   (p \<in> processedFiles st \<longrightarrow>
      handleNewScreenshot env p st = (st, []) \<and>
      transfers p (snd (run dir evs st)) = 0 \<and>
      p \<in> processedFiles (fst (run dir evs st)))"
  using run_transfers_le [of p dir evs st]
  by (simp add: handle_processed_noop run_transfers_processed run_processed_mono)

theorem dedup_at_most_one_transfer_witness:
  "''/win/c.png'' \<in> processedFiles (state_ex\<lparr>processedFiles := {''/win/c.png''}\<rparr>) \<and>
   handleNewScreenshot (env_ex [(''c.png'', Some (file_ex 10 200))] True) ''/win/c.png''
       (state_ex\<lparr>processedFiles := {''/win/c.png''}\<rparr>) =
     (state_ex\<lparr>processedFiles := {''/win/c.png''}\<rparr>, []) \<and>
   transfers ''/win/c.png''
     (snd (run ''/win''
        [(env_ex [(''c.png'', Some (file_ex 10 200))] True, Watcher ''rename'' (Some ''c.png'')),
         (env_ex [(''c.png'', Some (file_ex 10 200))] True, Poll)]
        (state_ex\<lparr>processedFiles := {''/win/c.png''}\<rparr>))) = 0 \<and>
   transfers ''/win/c.png''
     (snd (run ''/win''
        [(env_ex [(''c.png'', Some (file_ex 10 200))] True, Watcher ''rename'' (Some ''c.png'')),
         (env_ex [(''c.png'', Some (file_ex 10 200))] True, Poll)]
        state_ex)) = 1"
  using dedup_at_most_one_transfer [of "''/win/c.png''" "''/win''"
      "[(env_ex [(''c.png'', Some (file_ex 10 200))] True, Watcher ''rename'' (Some ''c.png'')),
        (env_ex [(''c.png'', Some (file_ex 10 200))] True, Poll)]"
      "state_ex\<lparr>processedFiles := {''/win/c.png''}\<rparr>"
      "env_ex [(''c.png'', Some (file_ex 10 200))] True"]
  by (simp add: ex_defs fn_defs)

text \<open>
  Claim C2. \<open>lastScreenshotCheck\<close> never decreases over a session. A poll cycle
  leaves it unchanged when it selects nothing, and otherwise sets it to the selected
  candidate's modification time, which is strictly greater than the old value. The
  watcher's deferred callback, \<open>handleNewScreenshot\<close> and \<open>cleanup\<close> do not change
  it, and \<open>startFileMonitoring\<close> sets it to \<^verbatim>\<open>Date.now()\<close> exactly when it
  returns \<^verbatim>\<open>true\<close>.
\<close>

theorem watermark_monotone:
  "lastScreenshotCheck st \<le> lastScreenshotCheck (fst (run dir evs st)) \<and>
   (case select_newest env dir (lastScreenshotCheck st) of
      None \<Rightarrow> lastScreenshotCheck (fst (checkForNewScreenshots env dir st)) = lastScreenshotCheck st
    | Some c \<Rightarrow> lastScreenshotCheck (fst (checkForNewScreenshots env dir st)) = mtime c \<and>
                lastScreenshotCheck st < mtime c) \<and>
   lastScreenshotCheck (fst (step dir env (Watcher eventType filename) st)) = lastScreenshotCheck st \<and>
   lastScreenshotCheck (fst (handleNewScreenshot env p st)) = lastScreenshotCheck st \<and>
   lastScreenshotCheck (fst (cleanup env st)) = lastScreenshotCheck st \<and>
   lastScreenshotCheck (fst (fst (startFileMonitoring env st))) =
     (if snd (fst (startFileMonitoring env st)) then Date_now env else lastScreenshotCheck st)"
  using check_watermark_cases [of env dir st]
  by (simp only: run_watermark_mono step_watcher_watermark handle_watermark cleanup_watermark
      start_watermark simp_thms)

theorem watermark_monotone_witness:
  "snd (fst (startFileMonitoring (env_ex [(''a.png'', Some (file_ex 10 100))] True) initial_state)) \<and>
   lastScreenshotCheck
     (fst (fst (startFileMonitoring (env_ex [(''a.png'', Some (file_ex 10 100))] True) initial_state))) = 150 \<and>
   select_newest (env_ex [(''a.png'', Some (file_ex 10 100)), (''b.png'', Some (file_ex 10 200))] True)
     ''/win'' (lastScreenshotCheck state_ex) =
     Some \<lparr>name = ''b.png'', path = ''/win/b.png'', mtime = 200\<rparr> \<and>
   lastScreenshotCheck (fst (checkForNewScreenshots
     (env_ex [(''a.png'', Some (file_ex 10 100)), (''b.png'', Some (file_ex 10 200))] True)
     ''/win'' state_ex)) = 200 \<and>
   lastScreenshotCheck state_ex < 200"
  using watermark_monotone [of state_ex "''/win''" "[]"
      "env_ex [(''a.png'', Some (file_ex 10 100)), (''b.png'', Some (file_ex 10 200))] True"
      "''rename''" "Some ''b.png''" "''/win/b.png''"]
    watermark_monotone [of initial_state "''/win''" "[]"
      "env_ex [(''a.png'', Some (file_ex 10 100))] True"
      "''rename''" "Some ''b.png''" "''/win/b.png''"]
  by (simp add: ex_defs fn_defs startFileMonitoring_def getWindowsScreenshotsPath_def initial_state_def)

text \<open>
  Claim C3. When the directory listing succeeds, one poll cycle selects nothing
  exactly if no qualifying file that can be stat'ed has a modification time above
  the watermark; a selected candidate is a listed, qualifying, stat'ed file above
  the watermark whose modification time no other such file exceeds; a file that is
  strictly newer than every other one is the candidate (so of \<open>t1 < t2 < t3\<close> only
  the \<open>t3\<close> file); and the cycle hands exactly that one candidate, and nothing else,
  to \<open>handleNewScreenshot\<close>. The selection is the single pass \<open>scan\<close> over the
  listing, which carries only the running maximum.
\<close>

theorem poll_selects_newest:
  assumes "readdirSync env dir = Some files"
  shows "(select_newest env dir w = None \<longleftrightarrow>
            (\<forall>f\<in>set files. qualifies f \<longrightarrow>
               (\<forall>s. statSync env (path_join env dir f) = Some s \<longrightarrow> mtime_getTime s \<le> w))) \<and>
         (\<forall>c. select_newest env dir w = Some c \<longrightarrow>
            name c \<in> set files \<and> qualifies (name c) \<and> path c = path_join env dir (name c) \<and>
            (\<exists>s. statSync env (path c) = Some s \<and> mtime_getTime s = mtime c) \<and> w < mtime c \<and>
            (\<forall>f\<in>set files. qualifies f \<longrightarrow>
               (\<forall>s. statSync env (path_join env dir f) = Some s \<longrightarrow> mtime_getTime s \<le> mtime c))) \<and>
         (\<forall>f3 s3. f3 \<in> set files \<and> qualifies f3 \<and>
            statSync env (path_join env dir f3) = Some s3 \<and> w < mtime_getTime s3 \<and>
            (\<forall>f\<in>set files. f \<noteq> f3 \<longrightarrow> qualifies f \<longrightarrow>
               (\<forall>s. statSync env (path_join env dir f) = Some s \<longrightarrow>
                  mtime_getTime s < mtime_getTime s3)) \<longrightarrow>
            select_newest env dir w =
              Some \<lparr>name = f3, path = path_join env dir f3, mtime = mtime_getTime s3\<rparr>) \<and>
         checkForNewScreenshots env dir st =
           (case select_newest env dir (lastScreenshotCheck st) of
              None \<Rightarrow> (st, [])
            | Some c \<Rightarrow>
               (fst (handleNewScreenshot env (path c) (st\<lparr>lastScreenshotCheck := mtime c\<rparr>)),
                ConsoleLog (''Found new screenshot: '' @ name c) #
                snd (handleNewScreenshot env (path c) (st\<lparr>lastScreenshotCheck := mtime c\<rparr>))))"
proof -
  have A: "select_newest env dir w = None \<longleftrightarrow>
            (\<forall>f\<in>set files. qualifies f \<longrightarrow>
               (\<forall>s. statSync env (path_join env dir f) = Some s \<longrightarrow> mtime_getTime s \<le> w))"
    by (rule select_newest_None_iff [OF assms])
  have B: "\<forall>c. select_newest env dir w = Some c \<longrightarrow>
            name c \<in> set files \<and> qualifies (name c) \<and> path c = path_join env dir (name c) \<and>
            (\<exists>s. statSync env (path c) = Some s \<and> mtime_getTime s = mtime c) \<and> w < mtime c \<and>
            (\<forall>f\<in>set files. qualifies f \<longrightarrow>
               (\<forall>s. statSync env (path_join env dir f) = Some s \<longrightarrow> mtime_getTime s \<le> mtime c))"
    by (intro allI impI) (rule select_newest_Some [OF assms])
  have C: "\<forall>f3 s3. f3 \<in> set files \<and> qualifies f3 \<and>
            statSync env (path_join env dir f3) = Some s3 \<and> w < mtime_getTime s3 \<and>
            (\<forall>f\<in>set files. f \<noteq> f3 \<longrightarrow> qualifies f \<longrightarrow>
               (\<forall>s. statSync env (path_join env dir f) = Some s \<longrightarrow>
                  mtime_getTime s < mtime_getTime s3)) \<longrightarrow>
            select_newest env dir w =
              Some \<lparr>name = f3, path = path_join env dir f3, mtime = mtime_getTime s3\<rparr>"
  proof (intro allI impI)
    fix f3 s3
    assume h: "f3 \<in> set files \<and> qualifies f3 \<and>
            statSync env (path_join env dir f3) = Some s3 \<and> w < mtime_getTime s3 \<and>
            (\<forall>f\<in>set files. f \<noteq> f3 \<longrightarrow> qualifies f \<longrightarrow>
               (\<forall>s. statSync env (path_join env dir f) = Some s \<longrightarrow>
                  mtime_getTime s < mtime_getTime s3))"
    show "select_newest env dir w =
              Some \<lparr>name = f3, path = path_join env dir f3, mtime = mtime_getTime s3\<rparr>"
      by (rule select_newest_strict [OF assms]) (use h in blast)+
  qed
  have D: "checkForNewScreenshots env dir st =
           (case select_newest env dir (lastScreenshotCheck st) of
              None \<Rightarrow> (st, [])
            | Some c \<Rightarrow>
               (fst (handleNewScreenshot env (path c) (st\<lparr>lastScreenshotCheck := mtime c\<rparr>)),
                ConsoleLog (''Found new screenshot: '' @ name c) #
                snd (handleNewScreenshot env (path c) (st\<lparr>lastScreenshotCheck := mtime c\<rparr>))))"
    using assms by (simp add: check_select)
  show ?thesis by (rule conjI [OF A conjI [OF B conjI [OF C D]]])
qed

theorem poll_selects_newest_witness:
  "readdirSync
     (env_ex [(''t1.png'', Some (file_ex 10 200)), (''t3.png'', Some (file_ex 10 400)),
              (''t2.png'', Some (file_ex 10 300))] True) ''/win'' =
     Some [''t1.png'', ''t3.png'', ''t2.png''] \<and>
   select_newest
     (env_ex [(''t1.png'', Some (file_ex 10 200)), (''t3.png'', Some (file_ex 10 400)),
              (''t2.png'', Some (file_ex 10 300))] True) ''/win'' 150 =
     Some \<lparr>name = ''t3.png'', path = ''/win/t3.png'', mtime = 400\<rparr> \<and>
   transfers ''/win/t3.png'' (snd (checkForNewScreenshots
     (env_ex [(''t1.png'', Some (file_ex 10 200)), (''t3.png'', Some (file_ex 10 400)),
              (''t2.png'', Some (file_ex 10 300))] True) ''/win'' state_ex)) = 1 \<and>
   transfers ''/win/t1.png'' (snd (checkForNewScreenshots
     (env_ex [(''t1.png'', Some (file_ex 10 200)), (''t3.png'', Some (file_ex 10 400)),
              (''t2.png'', Some (file_ex 10 300))] True) ''/win'' state_ex)) = 0 \<and>
   transfers ''/win/t2.png'' (snd (checkForNewScreenshots
     (env_ex [(''t1.png'', Some (file_ex 10 200)), (''t3.png'', Some (file_ex 10 400)),
              (''t2.png'', Some (file_ex 10 300))] True) ''/win'' state_ex)) = 0"
proof -
  let ?env = "env_ex [(''t1.png'', Some (file_ex 10 200)), (''t3.png'', Some (file_ex 10 400)),
                      (''t2.png'', Some (file_ex 10 300))] True"
  have listing: "readdirSync ?env ''/win'' = Some [''t1.png'', ''t3.png'', ''t2.png'']"
    by (simp add: ex_defs)
  note inst = poll_selects_newest [OF listing, of 150 state_ex]
  have "select_newest ?env ''/win'' 150 =
      Some \<lparr>name = ''t3.png'', path = path_join ?env ''/win'' ''t3.png'',
            mtime = mtime_getTime (file_ex 10 400)\<rparr>"
    by (rule inst [THEN conjunct2, THEN conjunct2, THEN conjunct1, rule_format])
      (simp add: ex_defs qualifies_def endsWith_def)
  then have sel: "select_newest ?env ''/win'' 150 =
      Some \<lparr>name = ''t3.png'', path = ''/win/t3.png'', mtime = 400\<rparr>"
    by (simp add: ex_defs)
  from inst sel have chk: "checkForNewScreenshots ?env ''/win'' state_ex =
      (fst (handleNewScreenshot ?env ''/win/t3.png'' (state_ex\<lparr>lastScreenshotCheck := 400\<rparr>)),
       ConsoleLog (''Found new screenshot: '' @ ''t3.png'') #
       snd (handleNewScreenshot ?env ''/win/t3.png'' (state_ex\<lparr>lastScreenshotCheck := 400\<rparr>)))"
    by (simp add: state_ex_def)
  show ?thesis
    apply (simp only: listing sel chk)
    apply (simp add: ex_defs handleNewScreenshot_def copyScreenshotToWSL_def copyToClipboard_def
        transfers_def Let_def)
    done
qed

subsection \<open>Ingestion, error containment, filtering and teardown\<close>

lemma handle_accept:
  assumes "p \<notin> processedFiles st" and "existsSync env p" and "statSync env p = Some s"
    and "isFile s" and "0 < size_st s"
  shows "handleNewScreenshot env p st =
           (if truthy (fst (copyScreenshotToWSL env (st\<lparr>processedFiles := insert p (processedFiles st)\<rparr>) p))
            then st\<lparr>processedFiles := insert p (processedFiles st),
                    lastSavedImagePath :=
                      fst (copyScreenshotToWSL env (st\<lparr>processedFiles := insert p (processedFiles st)\<rparr>) p)\<rparr>
            else st\<lparr>processedFiles := insert p (processedFiles st)\<rparr>,
            snd (copyScreenshotToWSL env (st\<lparr>processedFiles := insert p (processedFiles st)\<rparr>) p))"
  using assms by (simp add: handleNewScreenshot_def Let_def)

lemma copy_fails:
  "\<not> truthy (screenshotDir st) \<or>
   \<not> copyFileSync env p (path_join env (the (screenshotDir st)) (path_basename env p)) \<Longrightarrow>
   fst (copyScreenshotToWSL env st p) = None"
  by (auto simp add: copyScreenshotToWSL_def Let_def)

lemma copy_succeeds:
  "truthy (screenshotDir st) \<Longrightarrow>
   copyFileSync env p (path_join env (the (screenshotDir st)) (path_basename env p)) \<Longrightarrow>
   copyScreenshotToWSL env st p =
     (Some (path_join env (the (screenshotDir st)) (path_basename env p)),
      CopyFile p (path_join env (the (screenshotDir st)) (path_basename env p)) #
      copyToClipboard env (path_join env (the (screenshotDir st)) (path_basename env p)) @
      [ShowInformationMessage (''Screenshot copied: '' @ path_basename env p)])"
  by (simp add: copyScreenshotToWSL_def Let_def)

text \<open>
  Claim C4. When \<open>handleNewScreenshot\<close> accepts a path (not yet processed, existing,
  a regular file of positive size), the path is in \<open>processedFiles\<close> afterwards
  whatever the copy does, and the effects are those of \<open>copyScreenshotToWSL\<close> run
  on the state that already contains the path. If the copy fails (no destination
  directory, or \<^verbatim>\<open>fs.copyFileSync\<close> throws) the resulting state is the old one
  with the path added and nothing else changed; every later \<open>handleNewScreenshot\<close>
  on the path is a no-op, and no later watcher or poll event of the session copies
  it.
\<close>

theorem mark_survives_failed_copy:
  assumes "p \<notin> processedFiles st" and "existsSync env p" and "statSync env p = Some s"
    and "isFile s" and "0 < size_st s"
  shows "p \<in> processedFiles (fst (handleNewScreenshot env p st)) \<and>
         snd (handleNewScreenshot env p st) =
           snd (copyScreenshotToWSL env (st\<lparr>processedFiles := insert p (processedFiles st)\<rparr>) p) \<and>
         (\<not> truthy (screenshotDir st) \<or>
          \<not> copyFileSync env p (path_join env (the (screenshotDir st)) (path_basename env p)) \<longrightarrow>
            fst (handleNewScreenshot env p st) = st\<lparr>processedFiles := insert p (processedFiles st)\<rparr> \<and>
            handleNewScreenshot env' p (fst (handleNewScreenshot env p st)) =
              (fst (handleNewScreenshot env p st), []) \<and>
            transfers p (snd (run dir evs (fst (handleNewScreenshot env p st)))) = 0 \<and>
            p \<in> processedFiles (fst (run dir evs (fst (handleNewScreenshot env p st)))))"
proof -
  let ?st1 = "st\<lparr>processedFiles := insert p (processedFiles st)\<rparr>"
  note acc = handle_accept [OF assms]
  have marked: "p \<in> processedFiles (fst (handleNewScreenshot env p st))"
    by (simp add: acc)
  have effs: "snd (handleNewScreenshot env p st) = snd (copyScreenshotToWSL env ?st1 p)"
    by (simp add: acc)
  have fail: "\<not> truthy (screenshotDir st) \<or>
          \<not> copyFileSync env p (path_join env (the (screenshotDir st)) (path_basename env p)) \<longrightarrow>
            fst (handleNewScreenshot env p st) = ?st1 \<and>
            handleNewScreenshot env' p (fst (handleNewScreenshot env p st)) =
              (fst (handleNewScreenshot env p st), []) \<and>
            transfers p (snd (run dir evs (fst (handleNewScreenshot env p st)))) = 0 \<and>
            p \<in> processedFiles (fst (run dir evs (fst (handleNewScreenshot env p st))))"
  proof
    assume "\<not> truthy (screenshotDir st) \<or>
          \<not> copyFileSync env p (path_join env (the (screenshotDir st)) (path_basename env p))"
    then have "fst (copyScreenshotToWSL env ?st1 p) = None"
      using copy_fails [of ?st1 env p] by simp
    then have "fst (handleNewScreenshot env p st) = ?st1" by (simp add: acc)
    with marked show "fst (handleNewScreenshot env p st) = ?st1 \<and>
            handleNewScreenshot env' p (fst (handleNewScreenshot env p st)) =
              (fst (handleNewScreenshot env p st), []) \<and>
            transfers p (snd (run dir evs (fst (handleNewScreenshot env p st)))) = 0 \<and>
            p \<in> processedFiles (fst (run dir evs (fst (handleNewScreenshot env p st))))"
      by (simp add: handle_processed_noop run_transfers_processed run_processed_mono)
  qed
  show ?thesis by (rule conjI [OF marked conjI [OF effs fail]])
qed

theorem mark_survives_failed_copy_witness:
  "''/win/c.png'' \<notin> processedFiles state_ex \<and>
   existsSync (env_ex [(''c.png'', Some (file_ex 10 200))] False) ''/win/c.png'' \<and>
   statSync (env_ex [(''c.png'', Some (file_ex 10 200))] False) ''/win/c.png'' = Some (file_ex 10 200) \<and>
   isFile (file_ex 10 200) \<and> 0 < size_st (file_ex 10 200) \<and>
   \<not> copyFileSync (env_ex [(''c.png'', Some (file_ex 10 200))] False) ''/win/c.png'' ''/wsl/c.png'' \<and>
   handleNewScreenshot (env_ex [(''c.png'', Some (file_ex 10 200))] False) ''/win/c.png'' state_ex =
     (state_ex\<lparr>processedFiles := {''/win/c.png''}\<rparr>,
      [CopyFile ''/win/c.png'' ''/wsl/c.png'', ShowErrorMessage ''Error copying screenshot: '']) \<and>
   handleNewScreenshot (env_ex [(''c.png'', Some (file_ex 10 200))] True) ''/win/c.png''
     (state_ex\<lparr>processedFiles := {''/win/c.png''}\<rparr>) =
     (state_ex\<lparr>processedFiles := {''/win/c.png''}\<rparr>, []) \<and>
   transfers ''/win/c.png''
     (snd (run ''/win''
        [(env_ex [(''c.png'', Some (file_ex 10 200))] True, Poll),
         (env_ex [(''c.png'', Some (file_ex 10 200))] True, Watcher ''rename'' (Some ''c.png''))]
        (state_ex\<lparr>processedFiles := {''/win/c.png''}\<rparr>))) = 0"
proof -
  let ?bad = "env_ex [(''c.png'', Some (file_ex 10 200))] False"
  let ?good = "env_ex [(''c.png'', Some (file_ex 10 200))] True"
  have h: "''/win/c.png'' \<notin> processedFiles state_ex" "existsSync ?bad ''/win/c.png''"
    "statSync ?bad ''/win/c.png'' = Some (file_ex 10 200)"
    "isFile (file_ex 10 200)" "0 < size_st (file_ex 10 200)"
    by (simp_all add: ex_defs)
  have nocopy: "\<not> copyFileSync ?bad ''/win/c.png'' ''/wsl/c.png''" by (simp add: ex_defs)
  have tgt: "path_join ?bad (the (screenshotDir state_ex)) (path_basename ?bad ''/win/c.png'') = ''/wsl/c.png''"
    by (simp add: ex_defs)
  note inst = mark_survives_failed_copy [OF h, of ?good "''/win''"
      "[(?good, Poll), (?good, Watcher ''rename'' (Some ''c.png''))]"]
  have disj: "\<not> truthy (screenshotDir state_ex) \<or>
      \<not> copyFileSync ?bad ''/win/c.png''
          (path_join ?bad (the (screenshotDir state_ex)) (path_basename ?bad ''/win/c.png''))"
    by (simp add: ex_defs)
  have st1: "state_ex\<lparr>processedFiles := insert ''/win/c.png'' (processedFiles state_ex)\<rparr> =
             state_ex\<lparr>processedFiles := {''/win/c.png''}\<rparr>"
    by (simp add: state_ex_def)
  note rest = inst [THEN conjunct2, THEN conjunct2, THEN mp, OF disj]
  note r1 = rest [THEN conjunct1, unfolded st1]
  note r2 = rest [THEN conjunct2, THEN conjunct1, unfolded r1]
  note r3 = rest [THEN conjunct2, THEN conjunct2, THEN conjunct1, unfolded r1]
  have eff: "snd (handleNewScreenshot ?bad ''/win/c.png'' state_ex) =
      [CopyFile ''/win/c.png'' ''/wsl/c.png'', ShowErrorMessage ''Error copying screenshot: '']"
    unfolding inst [THEN conjunct2, THEN conjunct1]
    by (simp add: ex_defs copyScreenshotToWSL_def Let_def)
  have first: "handleNewScreenshot ?bad ''/win/c.png'' state_ex =
     (state_ex\<lparr>processedFiles := {''/win/c.png''}\<rparr>,
      [CopyFile ''/win/c.png'' ''/wsl/c.png'', ShowErrorMessage ''Error copying screenshot: ''])"
    using r1 eff by (simp only: prod_eq_iff fst_conv snd_conv simp_thms)
  show ?thesis
    using h nocopy first r2 r3 by (intro conjI)
qed

lemma handle_gate:
  "\<not> existsSync env p \<or> (\<exists>s. statSync env p = Some s \<and> (\<not> isFile s \<or> size_st s = 0)) \<Longrightarrow>
   handleNewScreenshot env p st = (st, [])"
  by (auto simp add: handleNewScreenshot_def)

lemma handle_stat_throws:
  "statSync env p = None \<Longrightarrow>
   fst (handleNewScreenshot env p st) = st \<and> transfers q (snd (handleNewScreenshot env p st)) = 0"
  by (simp add: handleNewScreenshot_def transfers_def)

text \<open>
  Claim C5. A candidate whose file does not exist, is not a regular file or has size
  zero leaves the state unchanged and produces no effect at all. (If \<^verbatim>\<open>fs.statSync\<close>
  throws after \<^verbatim>\<open>fs.existsSync\<close> answered \<^verbatim>\<open>true\<close>, the state is unchanged and
  nothing is copied; one line goes to the console.) After such a discard, a candidate
  for the same path that now is a regular file of positive size is accepted: with a
  destination directory configured and a copy that succeeds, the path is marked, the
  file is copied and \<open>lastSavedImagePath\<close> becomes the destination path (which
  \<^verbatim>\<open>path.join\<close> never makes empty).
\<close>

theorem validity_gate_discards_then_accepts:
  "(\<not> existsSync env p \<or> (\<exists>s. statSync env p = Some s \<and> (\<not> isFile s \<or> size_st s = 0)) \<longrightarrow>
      handleNewScreenshot env p st = (st, [])) \<and>
   (statSync env p = None \<longrightarrow>
      fst (handleNewScreenshot env p st) = st \<and>
      transfers q (snd (handleNewScreenshot env p st)) = 0) \<and>
   ((\<not> existsSync env p \<or> (\<exists>s. statSync env p = Some s \<and> (\<not> isFile s \<or> size_st s = 0))) \<and>
    p \<notin> processedFiles st \<and> existsSync env' p \<and> statSync env' p = Some s' \<and>
    isFile s' \<and> 0 < size_st s' \<and> screenshotDir st = Some d \<and> d \<noteq> [] \<and>
    copyFileSync env' p (path_join env' d (path_basename env' p)) \<and>
    path_join env' d (path_basename env' p) \<noteq> [] \<longrightarrow>
      handleNewScreenshot env' p (fst (handleNewScreenshot env p st)) =
        (st\<lparr>processedFiles := insert p (processedFiles st),
            lastSavedImagePath := Some (path_join env' d (path_basename env' p))\<rparr>,
         CopyFile p (path_join env' d (path_basename env' p)) #
         copyToClipboard env' (path_join env' d (path_basename env' p)) @
         [ShowInformationMessage (''Screenshot copied: '' @ path_basename env' p)]))"
proof (intro conjI impI)
  assume "\<not> existsSync env p \<or> (\<exists>s. statSync env p = Some s \<and> (\<not> isFile s \<or> size_st s = 0))"
  then show "handleNewScreenshot env p st = (st, [])" by (rule handle_gate)
next
  assume "statSync env p = None"
  then show "fst (handleNewScreenshot env p st) = st"
    and "transfers q (snd (handleNewScreenshot env p st)) = 0"
    by (simp_all add: handle_stat_throws)
next
  assume h: "(\<not> existsSync env p \<or> (\<exists>s. statSync env p = Some s \<and> (\<not> isFile s \<or> size_st s = 0))) \<and>
    p \<notin> processedFiles st \<and> existsSync env' p \<and> statSync env' p = Some s' \<and>
    isFile s' \<and> 0 < size_st s' \<and> screenshotDir st = Some d \<and> d \<noteq> [] \<and>
    copyFileSync env' p (path_join env' d (path_basename env' p)) \<and>
    path_join env' d (path_basename env' p) \<noteq> []"
  let ?st1 = "st\<lparr>processedFiles := insert p (processedFiles st)\<rparr>"
  from h have first: "handleNewScreenshot env p st = (st, [])" by (intro handle_gate) blast
  from h have "truthy (screenshotDir ?st1)"
    and "copyFileSync env' p (path_join env' (the (screenshotDir ?st1)) (path_basename env' p))"
    by simp_all
  then have copy: "copyScreenshotToWSL env' ?st1 p =
     (Some (path_join env' d (path_basename env' p)),
      CopyFile p (path_join env' d (path_basename env' p)) #
      copyToClipboard env' (path_join env' d (path_basename env' p)) @
      [ShowInformationMessage (''Screenshot copied: '' @ path_basename env' p)])"
    using h copy_succeeds [of ?st1 env' p] by simp
  from h have "handleNewScreenshot env' p st =
           (if truthy (fst (copyScreenshotToWSL env' ?st1 p))
            then st\<lparr>processedFiles := insert p (processedFiles st),
                    lastSavedImagePath := fst (copyScreenshotToWSL env' ?st1 p)\<rparr>
            else ?st1,
            snd (copyScreenshotToWSL env' ?st1 p))"
    by (intro handle_accept [of p st env' s']) simp_all
  with copy h first
  show "handleNewScreenshot env' p (fst (handleNewScreenshot env p st)) =
        (st\<lparr>processedFiles := insert p (processedFiles st),
            lastSavedImagePath := Some (path_join env' d (path_basename env' p))\<rparr>,
         CopyFile p (path_join env' d (path_basename env' p)) #
         copyToClipboard env' (path_join env' d (path_basename env' p)) @
         [ShowInformationMessage (''Screenshot copied: '' @ path_basename env' p)])"
    by simp
qed

theorem validity_gate_discards_then_accepts_witness:
  "(\<exists>s. statSync (env_ex [(''c.png'', Some (file_ex 0 200))] True) ''/win/c.png'' = Some s \<and>
        (\<not> isFile s \<or> size_st s = 0)) \<and>
   handleNewScreenshot (env_ex [(''c.png'', Some (file_ex 0 200))] True) ''/win/c.png'' state_ex =
     (state_ex, []) \<and>
   statSync (env_ex [(''c.png'', Some (file_ex 10 201))] True) ''/win/c.png'' = Some (file_ex 10 201) \<and>
   handleNewScreenshot (env_ex [(''c.png'', Some (file_ex 10 201))] True) ''/win/c.png''
     (fst (handleNewScreenshot (env_ex [(''c.png'', Some (file_ex 0 200))] True) ''/win/c.png'' state_ex)) =
     (state_ex\<lparr>processedFiles := {''/win/c.png''}, lastSavedImagePath := Some ''/wsl/c.png''\<rparr>,
      [CopyFile ''/win/c.png'' ''/wsl/c.png'', Clipboard ''/wsl/c.png'',
       ConsoleLog ''Copied to clipboard: /wsl/c.png'',
       ShowInformationMessage ''Screenshot copied: c.png'']) \<and>
   statSync (env_ex [(''c.png'', None)] True) ''/win/c.png'' = None \<and>
   fst (handleNewScreenshot (env_ex [(''c.png'', None)] True) ''/win/c.png'' state_ex) = state_ex"
proof -
  let ?e0 = "env_ex [(''c.png'', Some (file_ex 0 200))] True"
  let ?e1 = "env_ex [(''c.png'', Some (file_ex 10 201))] True"
  let ?e2 = "env_ex [(''c.png'', None)] True"
  have g: "\<not> existsSync ?e0 ''/win/c.png'' \<or>
           (\<exists>s. statSync ?e0 ''/win/c.png'' = Some s \<and> (\<not> isFile s \<or> size_st s = 0))"
    by (simp add: ex_defs)
  then have g': "\<exists>s. statSync ?e0 ''/win/c.png'' = Some s \<and> (\<not> isFile s \<or> size_st s = 0)"
    by (simp add: ex_defs)
  note inst = validity_gate_discards_then_accepts [of ?e0 "''/win/c.png''" state_ex "''/win/c.png''"
      ?e1 "file_ex 10 201" "''/wsl''"]
  note a = inst [THEN conjunct1, THEN mp, OF g]
  have h: "(\<not> existsSync ?e0 ''/win/c.png'' \<or>
           (\<exists>s. statSync ?e0 ''/win/c.png'' = Some s \<and> (\<not> isFile s \<or> size_st s = 0))) \<and>
    ''/win/c.png'' \<notin> processedFiles state_ex \<and> existsSync ?e1 ''/win/c.png'' \<and>
    statSync ?e1 ''/win/c.png'' = Some (file_ex 10 201) \<and>
    isFile (file_ex 10 201) \<and> 0 < size_st (file_ex 10 201) \<and> screenshotDir state_ex = Some ''/wsl'' \<and>
    ''/wsl'' \<noteq> [] \<and>
    copyFileSync ?e1 ''/win/c.png'' (path_join ?e1 ''/wsl'' (path_basename ?e1 ''/win/c.png'')) \<and>
    path_join ?e1 ''/wsl'' (path_basename ?e1 ''/win/c.png'') \<noteq> []"
    by (simp add: ex_defs)
  note b = inst [THEN conjunct2, THEN conjunct2, THEN mp, OF h]
  have b': "handleNewScreenshot ?e1 ''/win/c.png'' (fst (handleNewScreenshot ?e0 ''/win/c.png'' state_ex)) =
     (state_ex\<lparr>processedFiles := {''/win/c.png''}, lastSavedImagePath := Some ''/wsl/c.png''\<rparr>,
      [CopyFile ''/win/c.png'' ''/wsl/c.png'', Clipboard ''/wsl/c.png'',
       ConsoleLog ''Copied to clipboard: /wsl/c.png'',
       ShowInformationMessage ''Screenshot copied: c.png''])"
    unfolding b by (simp add: ex_defs copyToClipboard_def)
  have s1: "statSync ?e1 ''/win/c.png'' = Some (file_ex 10 201)" by (simp add: ex_defs)
  have s2: "statSync ?e2 ''/win/c.png'' = None" by (simp add: ex_defs)
  note c = validity_gate_discards_then_accepts [of ?e2 "''/win/c.png''" state_ex "''/win/c.png''"
      ?e1 "file_ex 10 201" "''/wsl''", THEN conjunct2, THEN conjunct1, THEN mp, OF s2, THEN conjunct1]
  show ?thesis using g' a s1 b' s2 c by (intro conjI)
qed

lemma select_Some_listing:
  "select_newest env dir w = Some c \<Longrightarrow> \<exists>files. readdirSync env dir = Some files"
  by (simp add: select_newest_def split: option.splits)

text \<open>
  Claim C6. When a poll cycle selects a candidate, the cycle is \<open>handleNewScreenshot\<close>
  applied to the state in which \<open>lastScreenshotCheck\<close> already is the candidate's
  modification time, and that is its value after the cycle whatever the handler
  does: in particular when the path was already processed or fails the validity
  gate, where the cycle changes nothing but the watermark.
\<close>

theorem watermark_set_before_ingestion:
  assumes "select_newest env dir (lastScreenshotCheck st) = Some c"
  shows "checkForNewScreenshots env dir st =
           (fst (handleNewScreenshot env (path c) (st\<lparr>lastScreenshotCheck := mtime c\<rparr>)),
            ConsoleLog (''Found new screenshot: '' @ name c) #
            snd (handleNewScreenshot env (path c) (st\<lparr>lastScreenshotCheck := mtime c\<rparr>))) \<and>
         lastScreenshotCheck (fst (checkForNewScreenshots env dir st)) = mtime c \<and>
         (path c \<in> processedFiles st \<longrightarrow>
            checkForNewScreenshots env dir st =
              (st\<lparr>lastScreenshotCheck := mtime c\<rparr>,
               [ConsoleLog (''Found new screenshot: '' @ name c)])) \<and>
         (\<not> existsSync env (path c) \<or>
          (\<exists>s. statSync env (path c) = Some s \<and> (\<not> isFile s \<or> size_st s = 0)) \<longrightarrow>
            checkForNewScreenshots env dir st =
              (st\<lparr>lastScreenshotCheck := mtime c\<rparr>,
               [ConsoleLog (''Found new screenshot: '' @ name c)]))"
proof -
  let ?st1 = "st\<lparr>lastScreenshotCheck := mtime c\<rparr>"
  from select_Some_listing [OF assms] obtain files where "readdirSync env dir = Some files" ..
  with assms have eq: "checkForNewScreenshots env dir st =
           (fst (handleNewScreenshot env (path c) ?st1),
            ConsoleLog (''Found new screenshot: '' @ name c) #
            snd (handleNewScreenshot env (path c) ?st1))"
    by (simp add: check_select)
  have wm: "lastScreenshotCheck (fst (checkForNewScreenshots env dir st)) = mtime c"
    by (simp add: eq handle_watermark)
  have dedup: "path c \<in> processedFiles st \<longrightarrow>
            checkForNewScreenshots env dir st =
              (?st1, [ConsoleLog (''Found new screenshot: '' @ name c)])"
    by (simp add: eq handle_processed_noop)
  have gate: "\<not> existsSync env (path c) \<or>
          (\<exists>s. statSync env (path c) = Some s \<and> (\<not> isFile s \<or> size_st s = 0)) \<longrightarrow>
            checkForNewScreenshots env dir st =
              (?st1, [ConsoleLog (''Found new screenshot: '' @ name c)])"
  proof
    assume "\<not> existsSync env (path c) \<or>
          (\<exists>s. statSync env (path c) = Some s \<and> (\<not> isFile s \<or> size_st s = 0))"
    then have "handleNewScreenshot env (path c) ?st1 = (?st1, [])" by (rule handle_gate)
    then show "checkForNewScreenshots env dir st =
              (?st1, [ConsoleLog (''Found new screenshot: '' @ name c)])"
      by (simp add: eq)
  qed
  show ?thesis by (rule conjI [OF eq conjI [OF wm conjI [OF dedup gate]]])
qed

theorem watermark_set_before_ingestion_witness:
  "select_newest (env_ex [(''b.png'', Some (file_ex 0 200))] True) ''/win''
     (lastScreenshotCheck state_ex) = Some \<lparr>name = ''b.png'', path = ''/win/b.png'', mtime = 200\<rparr> \<and>
   (\<exists>s. statSync (env_ex [(''b.png'', Some (file_ex 0 200))] True) ''/win/b.png'' = Some s \<and>
        (\<not> isFile s \<or> size_st s = 0)) \<and>
   checkForNewScreenshots (env_ex [(''b.png'', Some (file_ex 0 200))] True) ''/win'' state_ex =
     (state_ex\<lparr>lastScreenshotCheck := 200\<rparr>, [ConsoleLog ''Found new screenshot: b.png'']) \<and>
   select_newest (env_ex [(''b.png'', Some (file_ex 10 200))] False) ''/win''
     (lastScreenshotCheck state_ex) = Some \<lparr>name = ''b.png'', path = ''/win/b.png'', mtime = 200\<rparr> \<and>
   lastScreenshotCheck
     (fst (checkForNewScreenshots (env_ex [(''b.png'', Some (file_ex 10 200))] False) ''/win'' state_ex)) = 200 \<and>
   transfers ''/win/b.png''
     (snd (checkForNewScreenshots (env_ex [(''b.png'', Some (file_ex 10 200))] False) ''/win'' state_ex)) = 1 \<and>
   lastSavedImagePath
     (fst (checkForNewScreenshots (env_ex [(''b.png'', Some (file_ex 10 200))] False) ''/win'' state_ex)) = None"
proof -
  let ?e0 = "env_ex [(''b.png'', Some (file_ex 0 200))] True"
  let ?e1 = "env_ex [(''b.png'', Some (file_ex 10 200))] False"
  let ?c = "\<lparr>name = ''b.png'', path = ''/win/b.png'', mtime = 200\<rparr>"
  have sel0: "select_newest ?e0 ''/win'' (lastScreenshotCheck state_ex) = Some ?c"
    by (simp add: ex_defs select_newest_def qualifies_def endsWith_def)
  have sel1: "select_newest ?e1 ''/win'' (lastScreenshotCheck state_ex) = Some ?c"
    by (simp add: ex_defs select_newest_def qualifies_def endsWith_def)
  have g: "\<exists>s. statSync ?e0 ''/win/b.png'' = Some s \<and> (\<not> isFile s \<or> size_st s = 0)"
    by (simp add: ex_defs)
  then have g': "\<not> existsSync ?e0 (path ?c) \<or>
                 (\<exists>s. statSync ?e0 (path ?c) = Some s \<and> (\<not> isFile s \<or> size_st s = 0))"
    by simp
  note i0 = watermark_set_before_ingestion [OF sel0]
  note i1 = watermark_set_before_ingestion [OF sel1]
  have a: "checkForNewScreenshots ?e0 ''/win'' state_ex =
     (state_ex\<lparr>lastScreenshotCheck := 200\<rparr>, [ConsoleLog ''Found new screenshot: b.png''])"
    using i0 [THEN conjunct2, THEN conjunct2, THEN conjunct2, THEN mp, OF g'] by simp
  have b: "lastScreenshotCheck (fst (checkForNewScreenshots ?e1 ''/win'' state_ex)) = 200"
    using i1 [THEN conjunct2, THEN conjunct1] by simp
  have c: "transfers ''/win/b.png'' (snd (checkForNewScreenshots ?e1 ''/win'' state_ex)) = 1"
    unfolding i1 [THEN conjunct1]
    by (simp add: ex_defs handleNewScreenshot_def copyScreenshotToWSL_def Let_def transfers_def)
  have d: "lastSavedImagePath (fst (checkForNewScreenshots ?e1 ''/win'' state_ex)) = None"
    unfolding i1 [THEN conjunct1]
    by (simp add: ex_defs handleNewScreenshot_def copyScreenshotToWSL_def Let_def)
  show ?thesis using sel0 g a sel1 b c d by (intro conjI)
qed

lemma scan_skip_unstatable:
  "statSync env (path_join env dir f) = None \<Longrightarrow>
   scan env dir (pre @ f # post) acc = scan env dir (pre @ post) acc"
  by (cases "scan env dir pre acc") (simp add: scan_append Let_def)

lemma check_listing_fails:
  "readdirSync env dir = None \<Longrightarrow>
   checkForNewScreenshots env dir st = (st, [ConsoleError ''Error during polling check: ''])"
  by (simp add: checkForNewScreenshots_def)

lemma handle_timers:
  "fileWatcher (fst (handleNewScreenshot env p st)) = fileWatcher st \<and>
   pollingInterval (fst (handleNewScreenshot env p st)) = pollingInterval st"
  by (simp add: handleNewScreenshot_def Let_def split: option.splits)

lemma check_timers:
  "fileWatcher (fst (checkForNewScreenshots env dir st)) = fileWatcher st \<and>
   pollingInterval (fst (checkForNewScreenshots env dir st)) = pollingInterval st"
  by (simp add: checkForNewScreenshots_def Let_def handle_timers split: option.splits)

text \<open>
  Claim C7. A listed file whose \<^verbatim>\<open>fs.statSync\<close> throws is skipped: the candidate
  of the cycle is the one the scan of the remaining files yields. When
  \<^verbatim>\<open>fs.readdirSync\<close> throws, the cycle returns the state unchanged with one console
  line, and the session continues with the next event from that very state. No poll
  cycle touches the watcher subscription or the interval timer.
\<close>

theorem scanner_error_containment:
  "(readdirSync env dir = Some (pre @ f # post) \<and> statSync env (path_join env dir f) = None \<longrightarrow>
      select_newest env dir w = fst (scan env dir (pre @ post) (None, w))) \<and>
   (readdirSync env dir = None \<longrightarrow>
      checkForNewScreenshots env dir st = (st, [ConsoleError ''Error during polling check: '']) \<and>
      run dir ((env, Poll) # evs) st =
        (fst (run dir evs st), ConsoleError ''Error during polling check: '' # snd (run dir evs st))) \<and>
   fileWatcher (fst (checkForNewScreenshots env dir st)) = fileWatcher st \<and>
   pollingInterval (fst (checkForNewScreenshots env dir st)) = pollingInterval st"
proof (intro conjI impI)
  assume "readdirSync env dir = Some (pre @ f # post) \<and> statSync env (path_join env dir f) = None"
  then show "select_newest env dir w = fst (scan env dir (pre @ post) (None, w))"
    by (simp add: select_newest_def scan_skip_unstatable)
next
  assume "readdirSync env dir = None"
  then show "checkForNewScreenshots env dir st = (st, [ConsoleError ''Error during polling check: ''])"
    by (rule check_listing_fails)
next
  assume "readdirSync env dir = None"
  then show "run dir ((env, Poll) # evs) st =
        (fst (run dir evs st), ConsoleError ''Error during polling check: '' # snd (run dir evs st))"
    by (simp add: step_def check_listing_fails Let_def)
next
  show "fileWatcher (fst (checkForNewScreenshots env dir st)) = fileWatcher st"
    by (simp add: check_timers)
  show "pollingInterval (fst (checkForNewScreenshots env dir st)) = pollingInterval st"
    by (simp add: check_timers)
qed

theorem scanner_error_containment_witness:
  "readdirSync (env_ex [(''new.png'', None), (''old.png'', Some (file_ex 10 200))] True) ''/win'' =
     Some ([] @ ''new.png'' # [''old.png'']) \<and>
   statSync (env_ex [(''new.png'', None), (''old.png'', Some (file_ex 10 200))] True) ''/win/new.png'' = None \<and>
   select_newest (env_ex [(''new.png'', None), (''old.png'', Some (file_ex 10 200))] True) ''/win'' 150 =
     Some \<lparr>name = ''old.png'', path = ''/win/old.png'', mtime = 200\<rparr> \<and>
   readdirSync (env_ex [] True) ''/gone'' = None \<and>
   checkForNewScreenshots (env_ex [] True) ''/gone'' state_ex =
     (state_ex, [ConsoleError ''Error during polling check: '']) \<and>
   run ''/gone'' [(env_ex [] True, Poll), (env_ex [] True, Poll)] state_ex =
     (state_ex, [ConsoleError ''Error during polling check: '',
                 ConsoleError ''Error during polling check: ''])"
proof -
  let ?e = "env_ex [(''new.png'', None), (''old.png'', Some (file_ex 10 200))] True"
  let ?g = "env_ex [] True"
  have l: "readdirSync ?e ''/win'' = Some ([] @ ''new.png'' # [''old.png''])" by (simp add: ex_defs)
  have s: "statSync ?e ''/win/new.png'' = None" by (simp add: ex_defs)
  have h: "readdirSync ?e ''/win'' = Some ([] @ ''new.png'' # [''old.png'']) \<and>
           statSync ?e (path_join ?e ''/win'' ''new.png'') = None"
    by (simp add: ex_defs)
  have sel: "select_newest ?e ''/win'' 150 =
      Some \<lparr>name = ''old.png'', path = ''/win/old.png'', mtime = 200\<rparr>"
    unfolding scanner_error_containment [of ?e "''/win''" "[]" "''new.png''" "[''old.png'']" 150
        state_ex "[]", THEN conjunct1, THEN mp, OF h]
    by (simp add: ex_defs qualifies_def endsWith_def)
  have n: "readdirSync ?g ''/gone'' = None" by (simp add: ex_defs)
  note i1 = scanner_error_containment [of ?g "''/gone''" "[]" "[]" "[]" 0 state_ex "[(?g, Poll)]",
      THEN conjunct2, THEN conjunct1, THEN mp, OF n]
  note i2 = scanner_error_containment [of ?g "''/gone''" "[]" "[]" "[]" 0 state_ex "[]",
      THEN conjunct2, THEN conjunct1, THEN mp, OF n]
  have r: "run ''/gone'' [(?g, Poll), (?g, Poll)] state_ex =
     (state_ex, [ConsoleError ''Error during polling check: '',
                 ConsoleError ''Error during polling check: ''])"
    unfolding i1 [THEN conjunct2] i2 [THEN conjunct2] by simp
  show ?thesis using l s sel n i1 [THEN conjunct1] r by (intro conjI)
qed

lemma endsWith_iff: "endsWith s t \<longleftrightarrow> (\<exists>pre. s = pre @ t)"
proof
  assume "endsWith s t"
  then have "s = take (length s - length t) s @ t"
    by (metis append_take_drop_id endsWith_def)
  then show "\<exists>pre. s = pre @ t" ..
next
  assume "\<exists>pre. s = pre @ t"
  then show "endsWith s t" by (auto simp add: endsWith_def)
qed

lemma qualifies_lower: "qualifies (b @ ''.png'') \<and> qualifies (b @ ''.jpg'') \<and> qualifies (b @ ''.jpeg'')"
  by (simp add: qualifies_def endsWith_def)

lemma not_qualifies_upper: "\<not> qualifies (b @ ''.PNG'')"
  by (auto simp add: qualifies_def endsWith_iff dest: arg_cong [where f = last])

lemma not_qualifies_gif: "\<not> qualifies (b @ ''.gif'')"
  by (auto simp add: qualifies_def endsWith_iff dest: arg_cong [where f = last])

lemma qualifies_nonempty: "qualifies f \<Longrightarrow> f \<noteq> []"
  by (auto simp add: qualifies_def endsWith_def)

lemma select_newest_qualifies: "select_newest env dir w = Some c \<Longrightarrow> qualifies (name c)"
  using select_Some_listing [of env dir w c] select_newest_Some [of env dir _ w c] by blast

lemma watch_callback_Some:
  "watch_callback env dir eventType filename = Some p \<Longrightarrow>
     eventType = ''rename'' \<and> (\<exists>f. filename = Some f \<and> qualifies f \<and> p = path_join env dir f)"
  by (cases filename) (auto simp add: watch_callback_def split: if_splits)

text \<open>
  Claim C8. Names ending in \<open>.png\<close>, \<open>.jpg\<close> or \<open>.jpeg\<close> qualify; names ending
  in \<open>.PNG\<close> or \<open>.gif\<close> do not. The poll scanner only ever selects a qualifying
  name and the watcher callback only ever schedules a qualifying name (on a
  \<open>rename\<close> notification); a name that does not qualify is never scheduled and never
  selected, and a qualifying name is scheduled by a \<open>rename\<close> notification and is
  selected when it is the only listed file and lies above the watermark.
\<close>

theorem extension_filter_case_sensitive:
  "qualifies (b @ ''.png'') \<and> qualifies (b @ ''.jpg'') \<and> qualifies (b @ ''.jpeg'') \<and>
   \<not> qualifies (b @ ''.PNG'') \<and> \<not> qualifies (b @ ''.gif'') \<and>
   (\<forall>c. select_newest env dir w = Some c \<longrightarrow> qualifies (name c)) \<and>
   (\<forall>p. watch_callback env dir eventType filename = Some p \<longrightarrow>
        eventType = ''rename'' \<and> (\<exists>g. filename = Some g \<and> qualifies g \<and> p = path_join env dir g)) \<and>
   (\<not> qualifies f \<longrightarrow>
        watch_callback env dir eventType (Some f) = None \<and>
        (\<forall>c. select_newest env dir w = Some c \<longrightarrow> name c \<noteq> f)) \<and>
   (qualifies f \<longrightarrow>
        watch_callback env dir ''rename'' (Some f) = Some (path_join env dir f) \<and>
        (readdirSync env dir = Some [f] \<and> statSync env (path_join env dir f) = Some s \<and>
         w < mtime_getTime s \<longrightarrow>
           select_newest env dir w =
             Some \<lparr>name = f, path = path_join env dir f, mtime = mtime_getTime s\<rparr>))"
proof -
  have sel: "\<forall>c. select_newest env dir w = Some c \<longrightarrow> qualifies (name c)"
    by (blast intro: select_newest_qualifies)
  have wat: "\<forall>p. watch_callback env dir eventType filename = Some p \<longrightarrow>
        eventType = ''rename'' \<and> (\<exists>g. filename = Some g \<and> qualifies g \<and> p = path_join env dir g)"
    by (blast dest: watch_callback_Some)
  have neg: "\<not> qualifies f \<longrightarrow>
        watch_callback env dir eventType (Some f) = None \<and>
        (\<forall>c. select_newest env dir w = Some c \<longrightarrow> name c \<noteq> f)"
    using sel by (auto simp add: watch_callback_def)
  have pos: "qualifies f \<longrightarrow>
        watch_callback env dir ''rename'' (Some f) = Some (path_join env dir f) \<and>
        (readdirSync env dir = Some [f] \<and> statSync env (path_join env dir f) = Some s \<and>
         w < mtime_getTime s \<longrightarrow>
           select_newest env dir w =
             Some \<lparr>name = f, path = path_join env dir f, mtime = mtime_getTime s\<rparr>)"
    by (auto simp add: watch_callback_def qualifies_nonempty select_newest_def Let_def)
  from qualifies_lower [of b, THEN conjunct1] qualifies_lower [of b, THEN conjunct2, THEN conjunct1]
    qualifies_lower [of b, THEN conjunct2, THEN conjunct2]
    not_qualifies_upper [of b] not_qualifies_gif [of b] sel wat neg pos
  show ?thesis by (intro conjI)
qed


theorem extension_filter_case_sensitive_witness:
  "\<not> qualifies ''screenshot.PNG'' \<and> \<not> qualifies ''screenshot.gif'' \<and>
   qualifies ''screenshot.png'' \<and> qualifies ''screenshot.jpg'' \<and> qualifies ''screenshot.jpeg'' \<and>
   watch_callback (env_ex [] True) ''/win'' ''rename'' (Some ''screenshot.PNG'') = None \<and>
   watch_callback (env_ex [] True) ''/win'' ''rename'' (Some ''screenshot.jpeg'') =
     Some ''/win/screenshot.jpeg'' \<and>
   readdirSync (env_ex [(''screenshot.jpeg'', Some (file_ex 10 200))] True) ''/win'' =
     Some [''screenshot.jpeg''] \<and>
   select_newest (env_ex [(''screenshot.jpeg'', Some (file_ex 10 200))] True) ''/win'' 150 =
     Some \<lparr>name = ''screenshot.jpeg'', path = ''/win/screenshot.jpeg'', mtime = 200\<rparr> \<and>
   select_newest
     (env_ex [(''screenshot.PNG'', Some (file_ex 10 300)), (''screenshot.gif'', Some (file_ex 10 400)),
              (''screenshot.png'', Some (file_ex 10 200))] True) ''/win'' 150 =
     Some \<lparr>name = ''screenshot.png'', path = ''/win/screenshot.png'', mtime = 200\<rparr>"
proof -
  let ?e = "env_ex [(''screenshot.jpeg'', Some (file_ex 10 200))] True"
  note up = extension_filter_case_sensitive [of "''screenshot''" "env_ex [] True" "''/win''" 150
      "''rename''" "Some ''screenshot.PNG''" "''screenshot.PNG''" "file_ex 10 200"]
  note lo = extension_filter_case_sensitive [of "''screenshot''" ?e "''/win''" 150
      "''rename''" "Some ''screenshot.jpeg''" "''screenshot.jpeg''" "file_ex 10 200"]
  note lo' = extension_filter_case_sensitive [of "''screenshot''" "env_ex [] True" "''/win''" 150
      "''rename''" "Some ''screenshot.jpeg''" "''screenshot.jpeg''" "file_ex 10 200"]
  note c4 = conjunct2 [THEN conjunct2, THEN conjunct2]
  note c8 = c4 [THEN c4, THEN conjunct2, THEN conjunct1]
  note c9 = c4 [THEN c4, THEN conjunct2, THEN conjunct2]
  have q1: "qualifies ''screenshot.png''"
    using up [THEN conjunct1] by simp
  have q2: "qualifies ''screenshot.jpg''"
    using up [THEN conjunct2, THEN conjunct1] by simp
  have q3: "qualifies ''screenshot.jpeg''"
    using up [THEN conjunct2, THEN conjunct2, THEN conjunct1] by simp
  have nq: "\<not> qualifies ''screenshot.PNG''"
    using up [THEN c4, THEN conjunct1] by simp
  have ng: "\<not> qualifies ''screenshot.gif''"
    using up [THEN c4, THEN conjunct2, THEN conjunct1] by simp
  have w1: "watch_callback (env_ex [] True) ''/win'' ''rename'' (Some ''screenshot.PNG'') = None"
    by (rule up [THEN c8, THEN mp, OF nq, THEN conjunct1])
  have w2: "watch_callback (env_ex [] True) ''/win'' ''rename'' (Some ''screenshot.jpeg'') =
     Some ''/win/screenshot.jpeg''"
    using lo' [THEN c9, THEN mp, OF q3, THEN conjunct1] by (simp add: ex_defs)
  have l: "readdirSync ?e ''/win'' = Some [''screenshot.jpeg'']" by (simp add: ex_defs)
  have h: "readdirSync ?e ''/win'' = Some [''screenshot.jpeg''] \<and>
           statSync ?e (path_join ?e ''/win'' ''screenshot.jpeg'') = Some (file_ex 10 200) \<and>
           150 < mtime_getTime (file_ex 10 200)"
    by (simp add: ex_defs)
  have s1: "select_newest ?e ''/win'' 150 =
     Some \<lparr>name = ''screenshot.jpeg'', path = ''/win/screenshot.jpeg'', mtime = 200\<rparr>"
    using lo [THEN c9, THEN mp, OF q3, THEN conjunct2, THEN mp, OF h] by (simp add: ex_defs)
  have s2: "select_newest
     (env_ex [(''screenshot.PNG'', Some (file_ex 10 300)), (''screenshot.gif'', Some (file_ex 10 400)),
              (''screenshot.png'', Some (file_ex 10 200))] True) ''/win'' 150 =
     Some \<lparr>name = ''screenshot.png'', path = ''/win/screenshot.png'', mtime = 200\<rparr>"
    by (simp add: ex_defs select_newest_def qualifies_def endsWith_def)
  show ?thesis using nq ng q1 q2 q3 w1 w2 l s1 s2 by (intro conjI)
qed

lemma cleanup_state:
  "fst (cleanup env st) = st\<lparr>fileWatcher := None, pollingInterval := None, processedFiles := {}\<rparr>"
  by (cases "fileWatcher st"; cases "pollingInterval st") (simp_all add: cleanup_def Let_def)

lemma cleanup_effects_inactive:
  "fileWatcher st = None \<Longrightarrow> pollingInterval st = None \<Longrightarrow>
   WatcherClose \<notin> set (snd (cleanup env st)) \<and> ClearInterval \<notin> set (snd (cleanup env st))"
  by (simp add: cleanup_def Let_def)

lemma cleanup_effects_nothing:
  "fileWatcher st = None \<Longrightarrow> pollingInterval st = None \<Longrightarrow>
   \<not> (autoCleanup env \<and> truthy (screenshotDir st) \<and> existsSync env (the (screenshotDir st))) \<Longrightarrow>
   snd (cleanup env st) = []"
  by (auto simp add: cleanup_def Let_def)

lemma cleanup_effects_active:
  "(fileWatcher st \<noteq> None \<longrightarrow> WatcherClose \<in> set (snd (cleanup env st))) \<and>
   (pollingInterval st \<noteq> None \<longrightarrow> ClearInterval \<in> set (snd (cleanup env st)))"
  by (simp add: cleanup_def Let_def)

text \<open>
  Claim C9, amended. \<open>cleanup\<close> always returns; the state it returns is the old one
  with \<open>fileWatcher\<close> and \<open>pollingInterval\<close> undefined and \<open>processedFiles\<close> empty, and
  a live subscription is closed and a live interval cleared. A second call returns
  the same state, closes and clears nothing, and has no effect at all once the
  destination directory is gone. On a state with no subscription, no interval timer
  and an empty set, hence on the initial state, \<open>cleanup\<close> returns the state as it
  is. So teardown is idempotent and leaves no watcher subscription and no interval
  timer. It does not cancel settle timers: the pending ones are the same after
  teardown as before, also after a second teardown.
\<close>

theorem cleanup_idempotent:
  "fst (cleanup env st) = st\<lparr>fileWatcher := None, pollingInterval := None, processedFiles := {}\<rparr> \<and>
   (fileWatcher st \<noteq> None \<longrightarrow> WatcherClose \<in> set (snd (cleanup env st))) \<and>
   (pollingInterval st \<noteq> None \<longrightarrow> ClearInterval \<in> set (snd (cleanup env st))) \<and>
   fst (cleanup env' (fst (cleanup env st))) = fst (cleanup env st) \<and>
   WatcherClose \<notin> set (snd (cleanup env' (fst (cleanup env st)))) \<and>
   ClearInterval \<notin> set (snd (cleanup env' (fst (cleanup env st)))) \<and>
   (\<not> (autoCleanup env' \<and> truthy (screenshotDir st) \<and> existsSync env' (the (screenshotDir st))) \<longrightarrow>
      cleanup env' (fst (cleanup env st)) = (fst (cleanup env st), [])) \<and>
   (fileWatcher st = None \<and> pollingInterval st = None \<and> processedFiles st = {} \<longrightarrow>
      fst (cleanup env st) = st \<and>
      WatcherClose \<notin> set (snd (cleanup env st)) \<and> ClearInterval \<notin> set (snd (cleanup env st))) \<and>
   cleanup env initial_state = (initial_state, []) \<and>
   vars (fst (cleanup_rt env rt)) = fst (cleanup env (vars rt)) \<and>
   snd (cleanup_rt env rt) = snd (cleanup env (vars rt)) \<and>
   settleTimers (fst (cleanup_rt env rt)) = settleTimers rt \<and>
   fst (cleanup_rt env' (fst (cleanup_rt env rt))) = fst (cleanup_rt env rt)"
proof -
  let ?st' = "fst (cleanup env st)"
  have inactive: "fileWatcher ?st' = None" "pollingInterval ?st' = None"
    by (simp_all add: cleanup_state)
  have dir: "screenshotDir ?st' = screenshotDir st" by (simp add: cleanup_state)
  have a: "fst (cleanup env st) =
             st\<lparr>fileWatcher := None, pollingInterval := None, processedFiles := {}\<rparr>"
    by (rule cleanup_state)
  have b: "fst (cleanup env' ?st') = ?st'" by (simp add: cleanup_state)
  have c: "WatcherClose \<notin> set (snd (cleanup env' ?st'))"
    and d: "ClearInterval \<notin> set (snd (cleanup env' ?st'))"
    using cleanup_effects_inactive [OF inactive, of env'] by simp_all
  have e: "\<not> (autoCleanup env' \<and> truthy (screenshotDir st) \<and> existsSync env' (the (screenshotDir st))) \<longrightarrow>
      cleanup env' ?st' = (?st', [])"
    using cleanup_effects_nothing [OF inactive, of env'] b dir by (simp add: prod_eq_iff)
  have f: "fileWatcher st = None \<and> pollingInterval st = None \<and> processedFiles st = {} \<longrightarrow>
      fst (cleanup env st) = st \<and>
      WatcherClose \<notin> set (snd (cleanup env st)) \<and> ClearInterval \<notin> set (snd (cleanup env st))"
    using cleanup_effects_inactive [of st env] by (auto simp add: cleanup_state)
  have g: "cleanup env initial_state = (initial_state, [])"
    by (simp add: cleanup_def initial_state_def Let_def)
  have h: "vars (fst (cleanup_rt env rt)) = fst (cleanup env (vars rt))"
    and i: "snd (cleanup_rt env rt) = snd (cleanup env (vars rt))"
    and j: "settleTimers (fst (cleanup_rt env rt)) = settleTimers rt"
    by (simp_all add: cleanup_rt_def)
  have k: "fst (cleanup_rt env' (fst (cleanup_rt env rt))) = fst (cleanup_rt env rt)"
    by (simp add: cleanup_rt_def cleanup_state)
  from a cleanup_effects_active [of st env, THEN conjunct1]
    cleanup_effects_active [of st env, THEN conjunct2] b c d e f g h i j k
  show ?thesis by (intro conjI)
qed

theorem cleanup_idempotent_witness:
  "fileWatcher state_ex \<noteq> None \<and> pollingInterval state_ex \<noteq> None \<and>
   cleanup (env_ex [] True) (state_ex\<lparr>processedFiles := {''/win/b.png''}\<rparr>) =
     (state_ex\<lparr>fileWatcher := None, pollingInterval := None\<rparr>,
      [WatcherClose, ClearInterval, RmSync ''/wsl'',
       ConsoleLog ''Cleaned up and removed screenshot directory: /wsl'']) \<and>
   \<not> (autoCleanup (env_ex [] True\<lparr>existsSync := \<lambda>p. p = ''/win''\<rparr>) \<and>
      truthy (screenshotDir state_ex) \<and>
      existsSync (env_ex [] True\<lparr>existsSync := \<lambda>p. p = ''/win''\<rparr>) (the (screenshotDir state_ex))) \<and>
   cleanup (env_ex [] True\<lparr>existsSync := \<lambda>p. p = ''/win''\<rparr>)
     (fst (cleanup (env_ex [] True) (state_ex\<lparr>processedFiles := {''/win/b.png''}\<rparr>))) =
     (state_ex\<lparr>fileWatcher := None, pollingInterval := None\<rparr>, []) \<and>
   fileWatcher initial_state = None \<and> pollingInterval initial_state = None \<and>
   processedFiles initial_state = {} \<and>
   fst (cleanup (env_ex [] True) initial_state) = initial_state \<and>
   fst (cleanup_rt (env_ex [] True\<lparr>existsSync := \<lambda>p. p = ''/win''\<rparr>)
          (fst (cleanup_rt (env_ex [] True)
                  \<lparr>vars = state_ex, settleTimers = [''/win/b.png'']\<rparr>))) =
     \<lparr>vars = state_ex\<lparr>fileWatcher := None, pollingInterval := None\<rparr>,
      settleTimers = [''/win/b.png'']\<rparr>"
proof -
  let ?e = "env_ex [] True"
  let ?e' = "env_ex [] True\<lparr>existsSync := \<lambda>p. p = ''/win''\<rparr>"
  let ?st = "state_ex\<lparr>processedFiles := {''/win/b.png''}\<rparr>"
  note i = cleanup_idempotent [of ?e ?st ?e']
  have act: "fileWatcher state_ex \<noteq> None" "pollingInterval state_ex \<noteq> None"
    by (simp_all add: state_ex_def)
  have one: "cleanup ?e ?st =
     (state_ex\<lparr>fileWatcher := None, pollingInterval := None\<rparr>,
      [WatcherClose, ClearInterval, RmSync ''/wsl'',
       ConsoleLog ''Cleaned up and removed screenshot directory: /wsl''])"
    by (simp add: cleanup_def Let_def ex_defs)
  have gone: "\<not> (autoCleanup ?e' \<and> truthy (screenshotDir state_ex) \<and>
      existsSync ?e' (the (screenshotDir state_ex)))"
    by (simp add: ex_defs)
  then have gone': "\<not> (autoCleanup ?e' \<and> truthy (screenshotDir ?st) \<and>
      existsSync ?e' (the (screenshotDir ?st)))"
    by simp
  have two: "cleanup ?e' (fst (cleanup ?e ?st)) =
     (state_ex\<lparr>fileWatcher := None, pollingInterval := None\<rparr>, [])"
    using i [THEN conjunct2, THEN conjunct2, THEN conjunct2, THEN conjunct2, THEN conjunct2,
        THEN conjunct2, THEN conjunct1, THEN mp, OF gone']
    by (simp add: one)
  have init: "fileWatcher initial_state = None \<and> pollingInterval initial_state = None \<and>
      processedFiles initial_state = {}"
    by (simp add: initial_state_def)
  have three: "fst (cleanup ?e initial_state) = initial_state"
    using cleanup_idempotent [of ?e initial_state ?e, THEN conjunct2, THEN conjunct2, THEN conjunct2,
        THEN conjunct2, THEN conjunct2, THEN conjunct2, THEN conjunct2, THEN conjunct1, THEN mp,
        OF init]
    by simp
  let ?rt = "\<lparr>vars = state_ex, settleTimers = [''/win/b.png'']\<rparr>"
  note c8 = conjunct2 [THEN conjunct2, THEN conjunct2, THEN conjunct2, THEN conjunct2,
      THEN conjunct2, THEN conjunct2, THEN conjunct2]
  note irt = cleanup_idempotent [of ?e state_ex ?e' ?rt]
  have four: "fst (cleanup_rt ?e' (fst (cleanup_rt ?e ?rt))) =
     \<lparr>vars = state_ex\<lparr>fileWatcher := None, pollingInterval := None\<rparr>,
      settleTimers = [''/win/b.png'']\<rparr>"
    unfolding irt [THEN c8, THEN conjunct2, THEN conjunct2, THEN conjunct2, THEN conjunct2]
    by (simp add: cleanup_rt_def cleanup_def Let_def ex_defs)
  show ?thesis using act one gone two init three four by (intro conjI) simp_all
qed

text \<open>
  Claim C9 as first stated also says that teardown leaves no active timer. A settle
  timer set by a watcher notification before teardown is still pending after two
  calls of \<open>cleanup\<close> in a row, and when it fires it copies the file and puts its
  path into the emptied \<open>processedFiles\<close>.
\<close>

theorem cleanup_leaves_settle_timer_counterexample:
  "settleTimers
     (fst (cleanup_rt (env_ex [(''c.png'', Some (file_ex 10 200))] True\<lparr>autoCleanup := False\<rparr>)
        (fst (cleanup_rt (env_ex [(''c.png'', Some (file_ex 10 200))] True\<lparr>autoCleanup := False\<rparr>)
           (fs_watch_listener (env_ex [(''c.png'', Some (file_ex 10 200))] True) ''/win''
              ''rename'' (Some ''c.png'') \<lparr>vars = state_ex, settleTimers = []\<rparr>))))) =
     [''/win/c.png''] \<and>
   setTimeout_fires (env_ex [(''c.png'', Some (file_ex 10 200))] True)
     (fst (cleanup_rt (env_ex [(''c.png'', Some (file_ex 10 200))] True\<lparr>autoCleanup := False\<rparr>)
        (fst (cleanup_rt (env_ex [(''c.png'', Some (file_ex 10 200))] True\<lparr>autoCleanup := False\<rparr>)
           (fs_watch_listener (env_ex [(''c.png'', Some (file_ex 10 200))] True) ''/win''
              ''rename'' (Some ''c.png'') \<lparr>vars = state_ex, settleTimers = []\<rparr>))))) =
     (\<lparr>vars = state_ex\<lparr>fileWatcher := None, pollingInterval := None,
                        processedFiles := {''/win/c.png''},
                        lastSavedImagePath := Some ''/wsl/c.png''\<rparr>,
       settleTimers = []\<rparr>,
      [CopyFile ''/win/c.png'' ''/wsl/c.png'', Clipboard ''/wsl/c.png'',
       ConsoleLog ''Copied to clipboard: /wsl/c.png'',
       ShowInformationMessage ''Screenshot copied: c.png''])"
proof -
  let ?e = "env_ex [(''c.png'', Some (file_ex 10 200))] True"
  let ?q = "env_ex [(''c.png'', Some (file_ex 10 200))] True\<lparr>autoCleanup := False\<rparr>"
  have set_timer: "fs_watch_listener ?e ''/win'' ''rename'' (Some ''c.png'')
        \<lparr>vars = state_ex, settleTimers = []\<rparr> =
      \<lparr>vars = state_ex, settleTimers = [''/win/c.png'']\<rparr>"
    by (simp add: fs_watch_listener_def watch_callback_def qualifies_def endsWith_def ex_defs)
  have torn: "fst (cleanup_rt ?q (fst (cleanup_rt ?q \<lparr>vars = state_ex, settleTimers = [''/win/c.png'']\<rparr>))) =
      \<lparr>vars = state_ex\<lparr>fileWatcher := None, pollingInterval := None\<rparr>,
       settleTimers = [''/win/c.png'']\<rparr>"
    by (simp add: cleanup_rt_def cleanup_state state_ex_def)
  have fires: "setTimeout_fires ?e
      \<lparr>vars = state_ex\<lparr>fileWatcher := None, pollingInterval := None\<rparr>,
       settleTimers = [''/win/c.png'']\<rparr> =
     (\<lparr>vars = state_ex\<lparr>fileWatcher := None, pollingInterval := None,
                        processedFiles := {''/win/c.png''},
                        lastSavedImagePath := Some ''/wsl/c.png''\<rparr>,
       settleTimers = []\<rparr>,
      [CopyFile ''/win/c.png'' ''/wsl/c.png'', Clipboard ''/wsl/c.png'',
       ConsoleLog ''Copied to clipboard: /wsl/c.png'',
       ShowInformationMessage ''Screenshot copied: c.png''])"
    by (simp add: setTimeout_fires_def handleNewScreenshot_def copyScreenshotToWSL_def
        copyToClipboard_def Let_def ex_defs)
  show ?thesis unfolding set_timer torn fires by simp
qed

lemma cleanup_lastSavedImagePath:
  "lastSavedImagePath (fst (cleanup env st)) = lastSavedImagePath st"
  by (simp add: cleanup_state)

lemma interceptPaste_cong:
  "lastSavedImagePath st' = lastSavedImagePath st \<Longrightarrow> interceptPaste env st' = interceptPaste env st"
  by (simp add: interceptPaste_def)

lemma cleanup_removes_dir:
  "autoCleanup env \<and> truthy (screenshotDir st) \<and> existsSync env (the (screenshotDir st)) \<Longrightarrow>
   RmSync (the (screenshotDir st)) \<in> set (snd (cleanup env st))"
  by (simp add: cleanup_def Let_def)

text \<open>
  Claim C10. \<open>cleanup\<close> leaves \<open>lastSavedImagePath\<close> as it is, so the paste
  interceptor behaves after it as before: with a path set and an active terminal it
  still sends that path, also when \<open>cleanup\<close> has removed the destination directory
  the path lies in.
\<close>

theorem cleanup_keeps_lastSavedImagePath:
  "lastSavedImagePath (fst (cleanup env st)) = lastSavedImagePath st \<and>
   interceptPaste env' (fst (cleanup env st)) = interceptPaste env' st \<and>
   (truthy (lastSavedImagePath st) \<and> activeTerminal env' \<longrightarrow>
      SendText (the (lastSavedImagePath st)) \<in> set (interceptPaste env' (fst (cleanup env st)))) \<and>
   (autoCleanup env \<and> truthy (screenshotDir st) \<and> existsSync env (the (screenshotDir st)) \<longrightarrow>
      RmSync (the (screenshotDir st)) \<in> set (snd (cleanup env st)))"
proof -
  have a: "lastSavedImagePath (fst (cleanup env st)) = lastSavedImagePath st"
    by (rule cleanup_lastSavedImagePath)
  have b: "interceptPaste env' (fst (cleanup env st)) = interceptPaste env' st"
    by (rule interceptPaste_cong [OF a])
  have c: "truthy (lastSavedImagePath st) \<and> activeTerminal env' \<longrightarrow>
      SendText (the (lastSavedImagePath st)) \<in> set (interceptPaste env' (fst (cleanup env st)))"
    unfolding b by (simp add: interceptPaste_def)
  have d: "autoCleanup env \<and> truthy (screenshotDir st) \<and> existsSync env (the (screenshotDir st)) \<longrightarrow>
      RmSync (the (screenshotDir st)) \<in> set (snd (cleanup env st))"
    by (rule impI) (rule cleanup_removes_dir)
  show ?thesis by (rule conjI [OF a conjI [OF b conjI [OF c d]]])
qed

theorem cleanup_keeps_lastSavedImagePath_witness:
  "handleNewScreenshot (env_ex [(''b.png'', Some (file_ex 10 200))] True) ''/win/b.png'' state_ex =
     (state_ex\<lparr>processedFiles := {''/win/b.png''}, lastSavedImagePath := Some ''/wsl/b.png''\<rparr>,
      [CopyFile ''/win/b.png'' ''/wsl/b.png'', Clipboard ''/wsl/b.png'',
       ConsoleLog ''Copied to clipboard: /wsl/b.png'',
       ShowInformationMessage ''Screenshot copied: b.png'']) \<and>
   autoCleanup (env_ex [] True) \<and>
   truthy (screenshotDir (state_ex\<lparr>processedFiles := {''/win/b.png''},
                                   lastSavedImagePath := Some ''/wsl/b.png''\<rparr>)) \<and>
   existsSync (env_ex [] True) ''/wsl'' \<and>
   RmSync ''/wsl'' \<in> set (snd (cleanup (env_ex [] True)
       (state_ex\<lparr>processedFiles := {''/win/b.png''}, lastSavedImagePath := Some ''/wsl/b.png''\<rparr>))) \<and>
   lastSavedImagePath (fst (cleanup (env_ex [] True)
       (state_ex\<lparr>processedFiles := {''/win/b.png''}, lastSavedImagePath := Some ''/wsl/b.png''\<rparr>))) =
     Some ''/wsl/b.png'' \<and>
   activeTerminal (env_ex [] True\<lparr>existsSync := \<lambda>p. p = ''/win''\<rparr>) \<and>
   \<not> existsSync (env_ex [] True\<lparr>existsSync := \<lambda>p. p = ''/win''\<rparr>) ''/wsl/b.png'' \<and>
   SendText ''/wsl/b.png'' \<in> set (interceptPaste (env_ex [] True\<lparr>existsSync := \<lambda>p. p = ''/win''\<rparr>)
     (fst (cleanup (env_ex [] True)
       (state_ex\<lparr>processedFiles := {''/win/b.png''}, lastSavedImagePath := Some ''/wsl/b.png''\<rparr>))))"
proof -
  let ?e = "env_ex [] True"
  let ?e' = "env_ex [] True\<lparr>existsSync := \<lambda>p. p = ''/win''\<rparr>"
  let ?st = "state_ex\<lparr>processedFiles := {''/win/b.png''}, lastSavedImagePath := Some ''/wsl/b.png''\<rparr>"
  have ing: "handleNewScreenshot (env_ex [(''b.png'', Some (file_ex 10 200))] True) ''/win/b.png'' state_ex =
     (?st,
      [CopyFile ''/win/b.png'' ''/wsl/b.png'', Clipboard ''/wsl/b.png'',
       ConsoleLog ''Copied to clipboard: /wsl/b.png'',
       ShowInformationMessage ''Screenshot copied: b.png''])"
    by (simp add: ex_defs handleNewScreenshot_def copyScreenshotToWSL_def copyToClipboard_def Let_def)
  have h1: "autoCleanup ?e" "truthy (screenshotDir ?st)" "existsSync ?e ''/wsl''"
    by (simp_all add: ex_defs)
  have h1': "autoCleanup ?e \<and> truthy (screenshotDir ?st) \<and> existsSync ?e (the (screenshotDir ?st))"
    by (simp add: ex_defs)
  have h2: "truthy (lastSavedImagePath ?st) \<and> activeTerminal ?e'" by (simp add: ex_defs)
  have h3: "activeTerminal ?e'" "\<not> existsSync ?e' ''/wsl/b.png''" by (simp_all add: ex_defs)
  note i = cleanup_keeps_lastSavedImagePath [of ?e ?st ?e']
  have rm: "RmSync ''/wsl'' \<in> set (snd (cleanup ?e ?st))"
    using i [THEN conjunct2, THEN conjunct2, THEN conjunct2, THEN mp, OF h1']
    by (simp add: state_ex_def)
  have keep: "lastSavedImagePath (fst (cleanup ?e ?st)) = Some ''/wsl/b.png''"
    using i [THEN conjunct1] by simp
  have send: "SendText ''/wsl/b.png'' \<in> set (interceptPaste ?e' (fst (cleanup ?e ?st)))"
    using i [THEN conjunct2, THEN conjunct2, THEN conjunct1, THEN mp, OF h2] by simp
  show ?thesis using ing h1 rm keep h3 send by (intro conjI)
qed

end
